theory Spec2Isabelle
  imports Complex_Main
begin

section \<open>JavaScript strings\<close>

text \<open>
  A JavaScript string is a sequence of UTF-16 code units. A code unit is modelled by its
  numeric value, so that U+200B, U+200C and U+200D are single elements, as they are single
  code units of the program's strings. A literal of the source is written with \<open>js\<close>.
\<close>

type_synonym jsstring = "nat list"

abbreviation js :: "string \<Rightarrow> jsstring" where
  "js s \<equiv> map of_char s"

text \<open>\<^verbatim>\<open>s.slice(b, e)\<close> and \<^verbatim>\<open>s.slice(b)\<close>: a negative index counts from the end, and
  both are clamped to the string.\<close>

definition relIndex :: "nat \<Rightarrow> int \<Rightarrow> nat" where
  "relIndex len i = (if i < 0 then nat (max (int len + i) 0) else min (nat i) len)"

definition slice :: "jsstring \<Rightarrow> int \<Rightarrow> int \<Rightarrow> jsstring" where
  "slice s b e =
     (let lo = relIndex (length s) b; hi = relIndex (length s) e
      in take (hi - lo) (drop lo s))"

definition sliceFrom :: "jsstring \<Rightarrow> int \<Rightarrow> jsstring" where
  "sliceFrom s b = drop (relIndex (length s) b) s"

text \<open>\<^verbatim>\<open>s.substring(a, b)\<close>: both indices are clamped and swapped when out of order.\<close>

definition substring :: "jsstring \<Rightarrow> nat \<Rightarrow> nat \<Rightarrow> jsstring" where
  "substring s a b =
     (let a' = min a (length s); b' = min b (length s);
          lo = min a' b'; hi = max a' b'
      in take (hi - lo) (drop lo s))"

text \<open>\<^verbatim>\<open>s.indexOf(pat, from)\<close>; \<open>None\<close> is the result \<open>-1\<close>.\<close>

fun indexOfAux :: "jsstring \<Rightarrow> jsstring \<Rightarrow> nat \<Rightarrow> nat option" where
  "indexOfAux pat [] i = (if pat = [] then Some i else None)"
| "indexOfAux pat (c # cs) i =
     (if take (length pat) (c # cs) = pat then Some i else indexOfAux pat cs (Suc i))"

definition indexOf :: "jsstring \<Rightarrow> jsstring \<Rightarrow> nat \<Rightarrow> nat option" where
  "indexOf s pat fromIndex = indexOfAux pat (drop fromIndex s) (min fromIndex (length s))"

definition includesStr :: "jsstring \<Rightarrow> jsstring \<Rightarrow> bool" where
  "includesStr s pat = (indexOf s pat 0 \<noteq> None)"

text \<open>\<^verbatim>\<open>s.split(' ').length\<close>: one piece more than there are spaces.\<close>

definition splitSpaceCount :: "jsstring \<Rightarrow> nat" where
  "splitSpaceCount s = Suc (count_list s 32)"

text \<open>\<^verbatim>\<open>n.toString(2)\<close> and \<^verbatim>\<open>s.padStart(n, '0')\<close>; the digits \<open>'0'\<close> and \<open>'1'\<close> are the
  code units 48 and 49.\<close>

function toBinary :: "nat \<Rightarrow> jsstring" where
  "toBinary n = (if n < 2 then [48 + n] else toBinary (n div 2) @ [48 + n mod 2])"
  by pat_completeness auto
termination
  by (relation "measure id") auto

declare toBinary.simps [simp del]

definition padStart :: "nat \<Rightarrow> jsstring \<Rightarrow> jsstring" where
  "padStart n s = replicate (n - length s) 48 @ s"

text \<open>\<^verbatim>\<open>parseInt(s, 2)\<close> on a string of binary digits: the value of the longest prefix of
  digits, and \<open>NaN\<close> (here \<open>None\<close>) when there is none. The program only applies it to
  strings over \<open>'0'\<close> and \<open>'1'\<close>, so the leading white space and sign that \<open>parseInt\<close> would
  also accept are left out.\<close>

definition binValue :: "jsstring \<Rightarrow> nat" where
  "binValue ds = foldl (\<lambda>acc d. 2 * acc + (d - 48)) 0 ds"

definition parseInt2 :: "jsstring \<Rightarrow> nat option" where
  "parseInt2 s =
     (let ds = takeWhile (\<lambda>c. c = 48 \<or> c = 49) s
      in if ds = [] then None else Some (binValue ds))"

text \<open>\<^verbatim>\<open>String.fromCharCode(v)\<close>: the value modulo \<open>2^16\<close>; \<open>NaN\<close> gives the code unit 0.\<close>

definition fromCharCode :: "nat option \<Rightarrow> nat" where
  "fromCharCode v = (case v of None \<Rightarrow> 0 | Some n \<Rightarrow> n mod 65536)"

text \<open>\<^verbatim>\<open>Array.from(s).map(char => char.charCodeAt(0))\<close>: the string iterator yields one
  element per code point, so a high surrogate followed by a low surrogate is one element,
  of which \<open>charCodeAt(0)\<close> is the high surrogate.\<close>

definition isHighSurrogate :: "nat \<Rightarrow> bool" where
  "isHighSurrogate c = (55296 \<le> c \<and> c \<le> 56319)"

definition isLowSurrogate :: "nat \<Rightarrow> bool" where
  "isLowSurrogate c = (56320 \<le> c \<and> c \<le> 57343)"

fun charCodes :: "jsstring \<Rightarrow> nat list" where
  "charCodes [] = []"
| "charCodes [c] = [c]"
| "charCodes (c # d # cs) =
     (if isHighSurrogate c \<and> isLowSurrogate d then c # charCodes cs
      else c # charCodes (d # cs))"

section \<open>The zero-width channel\<close>

definition ZWSP :: nat where "ZWSP = 8203"
definition ZWNJ :: nat where "ZWNJ = 8204"
definition ZWJ :: nat where "ZWJ = 8205"

definition preamble :: jsstring where "preamble = replicate 3 ZWJ"
definition epilogue :: jsstring where "epilogue = replicate 3 ZWJ"

text \<open>The binary form of the data: eight digits per character, more for a character
  code above 255.\<close>

definition binaryData :: "jsstring \<Rightarrow> jsstring" where
  "binaryData dataToHide = concat (map (\<lambda>c. padStart 8 (toBinary c)) (charCodes dataToHide))"

definition lengthBinary :: "jsstring \<Rightarrow> jsstring" where
  "lengthBinary dataToHide = padStart 16 (toBinary (length (binaryData dataToHide)))"

definition encodeSymbols :: "jsstring \<Rightarrow> jsstring" where
  "encodeSymbols bits = map (\<lambda>bit. if bit = 48 then ZWSP else ZWNJ) bits"

definition insertPosition :: "jsstring \<Rightarrow> int" where
  "insertPosition text =
     min (int (length text) - 1) (max 0 (int (splitSpaceCount text mod 10 + 10)))"

definition hideDataInText :: "jsstring \<Rightarrow> jsstring \<Rightarrow> jsstring" where
  "hideDataInText text dataToHide =
     (let encodedLength = encodeSymbols (lengthBinary dataToHide);
          encodedData = encodeSymbols (binaryData dataToHide);
          position = insertPosition text
      in slice text 0 position @ preamble @ encodedLength @ encodedData @ epilogue
         @ sliceFrom text position)"

definition decodeSymbols :: "jsstring \<Rightarrow> jsstring" where
  "decodeSymbols cs = map (\<lambda>char. if char = ZWSP then 48 else 49) cs"

text \<open>The loop that regroups the data bits into characters, eight at a time, the last
  group as long as what is left.\<close>

function bitsToChars :: "jsstring \<Rightarrow> jsstring" where
  "bitsToChars dataBits =
     (if dataBits = [] then []
      else fromCharCode (parseInt2 (take 8 dataBits)) # bitsToChars (drop 8 dataBits))"
  by pat_completeness auto
termination
  by (relation "measure length") auto

declare bitsToChars.simps [simp del]

text \<open>What \<open>extractHiddenData\<close> does with the characters between the two markers. When
  the length field is empty \<open>parseInt\<close> gives \<open>NaN\<close>, and \<open>slice(16, NaN)\<close> is the empty
  string.\<close>

definition decodeContent :: "jsstring \<Rightarrow> jsstring" where
  "decodeContent encodedContent =
     (let lengthBits = decodeSymbols (slice encodedContent 0 16);
          dataLength = parseInt2 lengthBits;
          dataBits = decodeSymbols (slice encodedContent 16
            (case dataLength of None \<Rightarrow> 0 | Some n \<Rightarrow> 16 + int n))
      in bitsToChars dataBits)"

text \<open>\<open>None\<close> is the result \<open>null\<close>.\<close>

definition extractHiddenData :: "jsstring \<Rightarrow> jsstring option" where
  "extractHiddenData text =
     (case indexOf text preamble 0 of
        None \<Rightarrow> None
      | Some preambleIndex \<Rightarrow>
          (case indexOf text epilogue (preambleIndex + length preamble) of
             None \<Rightarrow> None
           | Some epilogueIndex \<Rightarrow>
               Some (decodeContent
                 (substring text (preambleIndex + length preamble) epilogueIndex))))"

text \<open>The stripping of the zero-width characters that the demonstration of the multilayer
  module applies to an encoded document: a global replace of every character in the range
  U+200B to U+200D by the empty string.\<close>

definition stripZeroWidth :: "jsstring \<Rightarrow> jsstring" where
  "stripZeroWidth s = filter (\<lambda>c. \<not> (8203 \<le> c \<and> c \<le> 8205)) s"

section \<open>More of the string library\<close>

text \<open>\<^verbatim>\<open>s.trim()\<close> removes the white space and line terminators of ECMAScript at both
  ends; the regular expression class \<^verbatim>\<open>\s\<close> is the same set.\<close>

definition isWhiteSpace :: "nat \<Rightarrow> bool" where
  "isWhiteSpace c =
     (c \<in> {9, 10, 11, 12, 13, 32, 160, 5760, 8232, 8233, 8239, 8287, 12288, 65279}
      \<or> (8192 \<le> c \<and> c \<le> 8202))"

definition trim :: "jsstring \<Rightarrow> jsstring" where
  "trim s = rev (dropWhile isWhiteSpace (rev (dropWhile isWhiteSpace s)))"

definition endsWith :: "jsstring \<Rightarrow> nat \<Rightarrow> bool" where
  "endsWith s c = (s \<noteq> [] \<and> last s = c)"

text \<open>\<^verbatim>\<open>s.split(' ')\<close> and \<^verbatim>\<open>words.join(' ')\<close>.\<close>

fun splitChar :: "nat \<Rightarrow> jsstring \<Rightarrow> jsstring \<Rightarrow> jsstring list" where
  "splitChar sep cur [] = [cur]"
| "splitChar sep cur (c # cs) =
     (if c = sep then cur # splitChar sep [] cs else splitChar sep (cur @ [c]) cs)"

fun joinWith :: "jsstring \<Rightarrow> jsstring list \<Rightarrow> jsstring" where
  "joinWith sep [] = []"
| "joinWith sep [w] = w"
| "joinWith sep (w # v # ws) = w @ sep @ joinWith sep (v # ws)"

text \<open>\<^verbatim>\<open>text.split('\n\n')\<close>: the pieces between the non-overlapping occurrences of two
  line feeds, found from left to right.\<close>

fun splitParagraphs :: "jsstring \<Rightarrow> jsstring \<Rightarrow> jsstring list" where
  "splitParagraphs cur [] = [cur]"
| "splitParagraphs cur [c] = [cur @ [c]]"
| "splitParagraphs cur (c # d # cs) =
     (if c = 10 \<and> d = 10 then cur # splitParagraphs [] cs
      else splitParagraphs (cur @ [c]) (d # cs))"

text \<open>\<^verbatim>\<open>s.replace(pat, rep)\<close> with a string pattern: the first occurrence is replaced. (No
  replacement string of the program contains a \<open>$\<close>.)\<close>

definition replaceFirst :: "jsstring \<Rightarrow> jsstring \<Rightarrow> jsstring \<Rightarrow> jsstring" where
  "replaceFirst s pat rep =
     (case indexOf s pat 0 of
        None \<Rightarrow> s
      | Some i \<Rightarrow> take i s @ rep @ drop (i + length pat) s)"

text \<open>\<^verbatim>\<open>text.match(/[^.!?]+[.!?]+/g) || []\<close>: the sentences. A match is a longest run of
  characters other than \<open>.\<close>, \<open>!\<close> and \<open>?\<close> followed by a longest run of these three; a
  run of terminators with nothing before it, and a last run of other characters with no
  terminator after it, are in no match. The scan keeps the body and the terminators of the
  match in progress.\<close>

definition isTerminator :: "nat \<Rightarrow> bool" where
  "isTerminator c = (c = 46 \<or> c = 33 \<or> c = 63)"

fun sentencesAux :: "jsstring \<Rightarrow> jsstring \<Rightarrow> jsstring \<Rightarrow> jsstring list" where
  "sentencesAux body terms [] = (if terms = [] then [] else [body @ terms])"
| "sentencesAux body terms (c # cs) =
     (if isTerminator c then
        (if body = [] then sentencesAux [] [] cs
         else sentencesAux body (terms @ [c]) cs)
      else
        (if terms = [] then sentencesAux (body @ [c]) [] cs
         else (body @ terms) # sentencesAux [c] [] cs))"

definition matchSentences :: "jsstring \<Rightarrow> jsstring list" where
  "matchSentences text = sentencesAux [] [] text"

section \<open>The source of randomness\<close>

text \<open>\<^verbatim>\<open>Math.random()\<close> is a stream of numbers in \<open>[0, 1)\<close>: the \<open>k\<close>-th call returns
  \<open>rng k\<close>, and every function that calls it takes the number of calls made so far and
  returns it updated. The doubles of the program are exact rationals here.\<close>

type_synonym rng = "nat \<Rightarrow> rat"

definition randomIndex :: "rat \<Rightarrow> nat \<Rightarrow> nat" where
  "randomIndex r n = nat \<lfloor>r * of_nat n\<rfloor>"

section \<open>The stylometric channel\<close>

datatype error = TextTooShort | NeedsMultipleParagraphs | ContentTooShort

definition adverbs :: "jsstring list" where
  "adverbs = [js ''very'', js ''quite'', js ''rather'', js ''somewhat'', js ''extremely'',
              js ''fairly'', js ''pretty'', js ''really'']"

text \<open>Bit 0: each adverb is looked at in turn, with one call of \<open>Math.random\<close> for each,
  and removed when the call is above 0.7 and the sentence has it between spaces; then a
  final \<open>!\<close> or \<open>?\<close> becomes a period.\<close>

fun removeAdverbs :: "rng \<Rightarrow> nat \<Rightarrow> jsstring list \<Rightarrow> jsstring \<Rightarrow> jsstring \<times> nat" where
  "removeAdverbs rnd k [] modified = (modified, k)"
| "removeAdverbs rnd k (adverb # rest) modified =
     (if rnd k > 7 / 10 \<and> includesStr modified ([32] @ adverb @ [32])
      then removeAdverbs rnd (Suc k) rest (replaceFirst modified ([32] @ adverb @ [32]) [32])
      else removeAdverbs rnd (Suc k) rest modified)"

definition encodeZero :: "rng \<Rightarrow> nat \<Rightarrow> jsstring \<Rightarrow> jsstring \<times> nat" where
  "encodeZero rnd k sentence =
     (let (modified, k1) = removeAdverbs rnd k adverbs sentence
      in if endsWith modified 33 \<or> endsWith modified 63
         then (slice modified 0 (- 1) @ [46], k1)
         else (modified, k1))"

text \<open>Bit 1: with one call above 0.7 an adverb is spliced in, at a position and with a
  choice that take one call each; then a final period becomes \<open>!\<close> or \<open>?\<close>, by one more
  call. An index outside the table gives \<open>undefined\<close>, which \<open>join\<close> writes as the empty
  string.\<close>

definition encodeOne :: "rng \<Rightarrow> nat \<Rightarrow> jsstring \<Rightarrow> jsstring \<times> nat" where
  "encodeOne rnd k sentence =
     (let (modified, k1) =
            (if rnd k > 7 / 10 then
               (let ws = splitChar 32 [] sentence;
                    randomPosition = randomIndex (rnd (Suc k)) (length ws - 1) + 1;
                    i = randomIndex (rnd (Suc (Suc k))) (length adverbs);
                    randomAdverb = (if i < length adverbs then adverbs ! i else [])
                in (joinWith [32] (take randomPosition ws @ [randomAdverb] @ drop randomPosition ws),
                    Suc (Suc (Suc k))))
             else (sentence, Suc k))
      in if endsWith modified 46
         then (slice modified 0 (- 1) @ [if rnd k1 > 1 / 2 then 33 else 63], Suc k1)
         else (modified, k1))"

text \<open>The first loop of \<open>encodeStylometricBits\<close>, over the sentences and the bits that are
  left; it returns the text so far, the bits not yet encoded and the calls of
  \<open>Math.random\<close>.\<close>

fun encodeSentences ::
  "rng \<Rightarrow> nat \<Rightarrow> jsstring list \<Rightarrow> jsstring \<Rightarrow> jsstring \<Rightarrow> jsstring \<times> jsstring \<times> nat" where
  "encodeSentences rnd k [] bits encodedText = (encodedText, bits, k)"
| "encodeSentences rnd k (s # ss) [] encodedText = (encodedText, [], k)"
| "encodeSentences rnd k (s # ss) (b # bits) encodedText =
     (let sentence = trim s in
      if splitSpaceCount sentence < 3
      then encodeSentences rnd k ss (b # bits) (encodedText @ sentence @ [32])
      else (let (modified, k1) =
                  (if b = 48 then encodeZero rnd k sentence else encodeOne rnd k sentence)
            in encodeSentences rnd k1 ss bits (encodedText @ modified @ [32])))"

text \<open>The second loop starts at the sentence whose index is the number of bits encoded.\<close>

definition encodeStylometricBits ::
  "rng \<Rightarrow> nat \<Rightarrow> jsstring \<Rightarrow> jsstring \<Rightarrow> error + (jsstring \<times> nat)" where
  "encodeStylometricBits rnd k text bitsToEncode =
     (let sentences = matchSentences text in
      if length sentences < length bitsToEncode then Inl TextTooShort
      else (let (encodedText, rest, k1) = encodeSentences rnd k sentences bitsToEncode [];
                bitIndex = length bitsToEncode - length rest
            in Inr (trim (encodedText
                      @ concat (map (\<lambda>s. s @ [32]) (drop bitIndex sentences))), k1)))"

definition markerText :: jsstring where
  "markerText = js ''Please note the following information carefully. ''"

text \<open>The loop over the middle paragraphs stops at the first one that is not blank.\<close>

fun encodeMiddle ::
  "rng \<Rightarrow> nat \<Rightarrow> jsstring list \<Rightarrow> jsstring \<Rightarrow> error + (jsstring \<times> nat)" where
  "encodeMiddle rnd k [] bitsToEncode = Inr ([], k)"
| "encodeMiddle rnd k (p # ps) bitsToEncode =
     (if length (trim p) > 0
      then (case encodeStylometricBits rnd k p bitsToEncode of
              Inl e \<Rightarrow> Inl e
            | Inr (t, k1) \<Rightarrow> Inr (t @ [10, 10], k1))
      else encodeMiddle rnd k ps bitsToEncode)"

definition hideDataStylometrically ::
  "rng \<Rightarrow> nat \<Rightarrow> jsstring \<Rightarrow> jsstring \<Rightarrow> error + (jsstring \<times> nat)" where
  "hideDataStylometrically rnd k text dataToEncode =
     (let bitsToEncode = lengthBinary dataToEncode @ binaryData dataToEncode;
          paragraphs = splitParagraphs [] text
      in if length paragraphs < 2 then Inl NeedsMultipleParagraphs
         else (let first = (if length (trim (hd paragraphs)) > 0
                            then markerText @ hd paragraphs @ [10, 10]
                            else markerText @ [10, 10])
               in case encodeMiddle rnd k (butlast (tl paragraphs)) bitsToEncode of
                    Inl e \<Rightarrow> Inl e
                  | Inr (middle, k1) \<Rightarrow>
                      Inr (first @ middle @ joinWith [10, 10] (drop 2 paragraphs), k1)))"

text \<open>The loop of \<open>extractStylometricBits\<close> over the sentences from the third on.\<close>

definition isBitOne :: "jsstring \<Rightarrow> bool" where
  "isBitOne sentence =
     (endsWith sentence 33 \<or> endsWith sentence 63
      \<or> list_ex (\<lambda>adverb. includesStr sentence ([32] @ adverb @ [32])) adverbs)"

fun extractSentences :: "jsstring list \<Rightarrow> jsstring \<Rightarrow> jsstring" where
  "extractSentences [] extractedBits = extractedBits"
| "extractSentences (s # ss) extractedBits =
     (let sentence = trim s in
      if splitSpaceCount sentence < 3 then extractSentences ss extractedBits
      else (let bits = extractedBits @ [if isBitOne sentence then 49 else 48] in
            if length bits \<ge> 16
               \<and> (case parseInt2 (take 16 bits) of
                     None \<Rightarrow> False
                   | Some dataLength \<Rightarrow> length bits \<ge> 16 + dataLength)
            then bits
            else extractSentences ss bits))"

definition extractStylometricBits :: "jsstring \<Rightarrow> jsstring option" where
  "extractStylometricBits text =
     (if \<not> includesStr text (js ''Please note the following information carefully.'')
      then None
      else (let extractedBits = extractSentences (drop 2 (matchSentences text)) []
            in if length extractedBits < 16 then None else Some extractedBits))"

text \<open>The regrouping of the stylometric and structural decoders: only a full group of
  eight bits gives a character.\<close>

function fullBytesToChars :: "jsstring \<Rightarrow> jsstring" where
  "fullBytesToChars dataBits =
     (if dataBits = [] then []
      else (if length (take 8 dataBits) = 8
            then [fromCharCode (parseInt2 (take 8 dataBits))] else [])
           @ fullBytesToChars (drop 8 dataBits))"
  by pat_completeness auto
termination
  by (relation "measure length") auto

declare fullBytesToChars.simps [simp del]

text \<open>The end of both decoders, from the extracted bits on.\<close>

definition decodeLengthPrefixed :: "jsstring \<Rightarrow> jsstring option" where
  "decodeLengthPrefixed extractedBits =
     (let dataLength = parseInt2 (substring extractedBits 0 16) in
      if (case dataLength of None \<Rightarrow> False | Some n \<Rightarrow> length extractedBits < 16 + n)
      then None
      else Some (fullBytesToChars (substring extractedBits 16
                   (case dataLength of None \<Rightarrow> 0 | Some n \<Rightarrow> 16 + n))))"

definition extractHiddenStylometricData :: "jsstring \<Rightarrow> jsstring option" where
  "extractHiddenStylometricData text =
     (case extractStylometricBits text of
        None \<Rightarrow> None
      | Some extractedBits \<Rightarrow>
          if extractedBits = [] \<or> length extractedBits < 16 then None
          else decodeLengthPrefixed extractedBits)"

text \<open>The sentences that can carry a bit, by the test of both loops:
  \<^verbatim>\<open>sentence.split(' ').length < 3\<close> skips a sentence.\<close>

definition eligibleSentences :: "jsstring \<Rightarrow> jsstring list" where
  "eligibleSentences text =
     filter (\<lambda>s. \<not> splitSpaceCount (trim s) < 3) (matchSentences text)"

section \<open>Regular expressions over words\<close>

text \<open>
  The analysis counts the matches of expressions of the form \<^verbatim>\<open>/\b(a|b|...)\b/gi\<close>. The
  model scans the text from left to right as the matcher does: at a position with a word
  boundary before it, the alternatives are tried in order, and one succeeds when it
  matches there, letters compared without case, and a word boundary follows; the scan
  goes on after the match. A word character is a letter, a digit or \<open>_\<close> of ASCII, and
  without the \<open>u\<close> flag only ASCII letters match an ASCII letter of another case. An
  alternative is a literal or \<^verbatim>\<open>\w+ed\<close>, which matches a whole word of three or more
  characters that ends in \<open>ed\<close> (followed by the boundary, the match of \<^verbatim>\<open>\w+\<close> can
  stop nowhere else).
\<close>

definition isWordChar :: "nat \<Rightarrow> bool" where
  "isWordChar c =
     ((48 \<le> c \<and> c \<le> 57) \<or> (65 \<le> c \<and> c \<le> 90) \<or> c = 95 \<or> (97 \<le> c \<and> c \<le> 122))"

definition lowerAscii :: "nat \<Rightarrow> nat" where
  "lowerAscii c = (if 65 \<le> c \<and> c \<le> 90 then c + 32 else c)"

datatype alternative = Lit jsstring | WordEd

definition startsWord :: "jsstring \<Rightarrow> bool" where
  "startsWord rest = (case rest of [] \<Rightarrow> False | c # _ \<Rightarrow> isWordChar c)"

fun altMatch :: "alternative \<Rightarrow> jsstring \<Rightarrow> nat option" where
  "altMatch (Lit l) rest =
     (if length l \<le> length rest \<and> map lowerAscii (take (length l) rest) = map lowerAscii l
         \<and> (l \<noteq> [] \<and> isWordChar (last l)) \<noteq> startsWord (drop (length l) rest)
      then Some (length l) else None)"
| "altMatch WordEd rest =
     (let w = takeWhile isWordChar rest in
      if 3 \<le> length w \<and> map lowerAscii (drop (length w - 2) w) = js ''ed''
      then Some (length w) else None)"

fun firstAlt :: "alternative list \<Rightarrow> jsstring \<Rightarrow> nat option" where
  "firstAlt [] rest = None"
| "firstAlt (a # as) rest =
     (case altMatch a rest of Some n \<Rightarrow> Some n | None \<Rightarrow> firstAlt as rest)"

text \<open>\<open>prev\<close> tells whether the character before the position is a word character, and
  \<open>skip\<close> counts the characters of the last match still to pass.\<close>

fun scanMatches :: "alternative list \<Rightarrow> bool \<Rightarrow> nat \<Rightarrow> jsstring \<Rightarrow> nat" where
  "scanMatches alts prev skip [] = 0"
| "scanMatches alts prev skip (c # cs) =
     (if 0 < skip then scanMatches alts (isWordChar c) (skip - 1) cs
      else if prev \<noteq> isWordChar c then
        (case firstAlt alts (c # cs) of
           Some n \<Rightarrow> Suc (scanMatches alts (isWordChar c) (n - 1) cs)
         | None \<Rightarrow> scanMatches alts (isWordChar c) 0 cs)
      else scanMatches alts (isWordChar c) 0 cs)"

definition matchCount :: "alternative list \<Rightarrow> jsstring \<Rightarrow> nat" where
  "matchCount alts text = scanMatches alts False 0 text"

definition lits :: "string list \<Rightarrow> alternative list" where
  "lits ws = map (\<lambda>w. Lit (js w)) ws"

section \<open>The analysis of a content unit\<close>

datatype pointOfView = First | Second | Third | MixedPov
datatype tenseClass = Past | Present | Future | MixedTense
datatype dialecticClass = Argumentative | Descriptive | Narrative | MixedDialectic

text \<open>The members of the enumeration \<open>RhetoricalPattern\<close> are numbers, and the source
  gives the same number to several of them.\<close>

definition EndingQuestion :: nat where "EndingQuestion = 0"
definition EndingEmphasis :: nat where "EndingEmphasis = 1"
definition Metaphorical :: nat where "Metaphorical = 0"
definition Direct :: nat where "Direct = 1"
definition ClaimThenExample :: nat where "ClaimThenExample = 0"
definition ExampleThenClaim :: nat where "ExampleThenClaim = 1"

text \<open>The numbers of the analysis are doubles in the program and exact rationals here;
  \<open>None\<close> is \<open>NaN\<close>, the complexity of a unit without words. The complexity counts the
  distinct words after \<open>toLowerCase\<close>, which the model applies to the letters of ASCII
  only; on both counts the field \<open>complexity\<close> is an approximation of the program's
  value, and no property below depends on it.\<close>

record ContentUnitAnalysis =
  wordCount :: nat
  sentenceCount :: nat
  averageSentenceLength :: rat
  complexity :: "rat option"
  pov :: pointOfView
  tense :: tenseClass
  rhetorical :: "nat list"
  dialectic :: dialecticClass

text \<open>\<^verbatim>\<open>text.split(/\s+/).filter(w => w.length > 0)\<close>: the longest runs of characters
  that are not white space.\<close>

fun wordsAux :: "jsstring \<Rightarrow> jsstring \<Rightarrow> jsstring list" where
  "wordsAux cur [] = (if cur = [] then [] else [cur])"
| "wordsAux cur (c # cs) =
     (if isWhiteSpace c then (if cur = [] then wordsAux [] cs else cur # wordsAux [] cs)
      else wordsAux (cur @ [c]) cs)"

definition firstPersonCount :: "jsstring \<Rightarrow> nat" where
  "firstPersonCount text = matchCount (lits [''I'', ''me'', ''my'', ''mine'', ''myself'']) text"

definition secondPersonCount :: "jsstring \<Rightarrow> nat" where
  "secondPersonCount text = matchCount (lits [''you'', ''your'', ''yours'', ''yourself'']) text"

definition thirdPersonCount :: "jsstring \<Rightarrow> nat" where
  "thirdPersonCount text =
     matchCount (lits [''he'', ''she'', ''it'', ''they'', ''him'', ''her'', ''them'', ''his'',
                       ''hers'', ''their'', ''theirs'']) text"

definition pastTenseCount :: "jsstring \<Rightarrow> nat" where
  "pastTenseCount text = matchCount (WordEd # lits [''was'', ''were'', ''had'']) text"

definition presentTenseCount :: "jsstring \<Rightarrow> nat" where
  "presentTenseCount text = matchCount (lits [''is'', ''are'', ''am'', ''being'']) text"

definition futureTenseCount :: "jsstring \<Rightarrow> nat" where
  "futureTenseCount text = matchCount (lits [''will'', ''shall'', ''going to'']) text"

definition emphasisCount :: "jsstring \<Rightarrow> nat" where
  "emphasisCount text =
     matchCount (lits [''certainly'', ''definitely'', ''absolutely'', ''crucial'',
                       ''essential'', ''critical'']) text"

definition metaphorCount :: "jsstring \<Rightarrow> nat" where
  "metaphorCount text =
     matchCount (lits [''like'', ''as if'', ''as though'', ''resembles'', ''similar to'']) text"

definition argumentativeCount :: "jsstring \<Rightarrow> nat" where
  "argumentativeCount text =
     matchCount (lits [''because'', ''therefore'', ''thus'', ''hence'', ''so'',
                       ''consequently'']) text"

definition descriptiveCount :: "jsstring \<Rightarrow> nat" where
  "descriptiveCount text =
     matchCount (lits [''appears'', ''looks'', ''seems'', ''features'', ''contains'',
                       ''consists'']) text"

definition narrativeCount :: "jsstring \<Rightarrow> nat" where
  "narrativeCount text =
     matchCount (lits [''then'', ''next'', ''after'', ''before'', ''finally'',
                       ''eventually'']) text"

text \<open>The three classifications, as the source writes each of them. The test of the
  dialectic, \<^verbatim>\<open>max > sum / 2\<close>, is written without the division.\<close>

definition classifyPov :: "nat \<Rightarrow> nat \<Rightarrow> nat \<Rightarrow> pointOfView" where
  "classifyPov c0 c1 c2 =
     (let maxPovCount = max c0 (max c1 c2) in
      if maxPovCount > 0 \<and> maxPovCount \<ge> 2 * ((c0 + c1 + c2) - maxPovCount)
      then (if c0 = maxPovCount then First
            else if c1 = maxPovCount then Second else Third)
      else MixedPov)"

definition classifyTense :: "nat \<Rightarrow> nat \<Rightarrow> nat \<Rightarrow> tenseClass" where
  "classifyTense c0 c1 c2 =
     (let maxTenseCount = max c0 (max c1 c2) in
      if maxTenseCount > 0 \<and> maxTenseCount \<ge> 2 * ((c0 + c1 + c2) - maxTenseCount)
      then (if c0 = maxTenseCount then Past
            else if c1 = maxTenseCount then Present else Future)
      else MixedTense)"

definition classifyDialectic :: "nat \<Rightarrow> nat \<Rightarrow> nat \<Rightarrow> dialecticClass" where
  "classifyDialectic c0 c1 c2 =
     (let maxDialecticCount = max c0 (max c1 c2) in
      if maxDialecticCount > 0 \<and> 2 * maxDialecticCount > c0 + c1 + c2
      then (if c0 = maxDialecticCount then Argumentative
            else if c1 = maxDialecticCount then Descriptive else Narrative)
      else MixedDialectic)"

definition rhetoricalOf :: "jsstring \<Rightarrow> nat list" where
  "rhetoricalOf text =
     (let sentences = matchSentences text;
          closing =
            (if length sentences > 0 \<and> endsWith (trim (last sentences)) 63
             then [EndingQuestion]
             else if length sentences > 0
                     \<and> (endsWith (trim (last sentences)) 33
                         \<or> emphasisCount (last sentences) > 0)
             then [EndingEmphasis] else [])
      in closing @ (if metaphorCount text > 0 then [Metaphorical] else [Direct]))"

definition analyzeContentUnit :: "jsstring \<Rightarrow> ContentUnitAnalysis" where
  "analyzeContentUnit text =
     (let sentences = matchSentences text;
          ws = wordsAux [] text;
          uniqueWords = remdups (map (map lowerAscii) ws);
          perSentence = (if length sentences > 0
                         then of_nat (length ws) / of_nat (length sentences) else 0)
      in \<lparr> wordCount = length ws,
           sentenceCount = length sentences,
           averageSentenceLength = perSentence,
           complexity =
             (if length ws = 0 then None
              else Some (perSentence * (of_nat (length uniqueWords) / of_nat (length ws)) * 10)),
           pov = classifyPov (firstPersonCount text) (secondPersonCount text)
                   (thirdPersonCount text),
           tense = classifyTense (pastTenseCount text) (presentTenseCount text)
                     (futureTenseCount text),
           rhetorical = rhetoricalOf text,
           dialectic = classifyDialectic (argumentativeCount text) (descriptiveCount text)
                         (narrativeCount text) \<rparr>)"

section \<open>The structural decoder\<close>

text \<open>\<^verbatim>\<open>content.split(/\n\s*\n/)\<close>: a separator starts at a line feed and, the white space
  after it being matched as far as possible, ends at the last line feed of the run of
  white space that follows. Then the grouping of the sentences, where \<open>n\<close> is the
  \<open>sentenceCount\<close> of the source.\<close>

function splitBlankLines :: "jsstring \<Rightarrow> jsstring \<Rightarrow> jsstring list" where
  "splitBlankLines cur [] = [cur]"
| "splitBlankLines cur (c # cs) =
     (if c = 10 \<and> 10 \<in> set (takeWhile isWhiteSpace cs)
      then cur # splitBlankLines []
             (drop (length (dropWhile (\<lambda>x. x \<noteq> 10) (rev (takeWhile isWhiteSpace cs)))) cs)
      else splitBlankLines (cur @ [c]) cs)"
  by pat_completeness auto
termination
  by (relation "measure (\<lambda>(cur, rest). length rest)") auto

fun groupSentences :: "jsstring list \<Rightarrow> jsstring \<Rightarrow> nat \<Rightarrow> jsstring list" where
  "groupSentences [] currentUnit n =
     (if length currentUnit > 0 then [currentUnit] else [])"
| "groupSentences (sentence # rest) currentUnit n =
     (if Suc n \<ge> 3 \<or> length (currentUnit @ sentence) > 200
      then (currentUnit @ sentence) # groupSentences rest [] 0
      else groupSentences rest (currentUnit @ sentence) (Suc n))"

definition splitContentIntoUnits :: "jsstring \<Rightarrow> jsstring list" where
  "splitContentIntoUnits content =
     (let paragraphs = filter (\<lambda>p. length (trim p) > 0) (splitBlankLines [] content)
      in if length paragraphs < 5 then groupSentences (matchSentences content) [] 0
         else paragraphs)"

text \<open>The test of a section for the pattern short, long, short, long on the lengths of
  its units; \<open>evenIndex\<close> tells whether the index of the first one is even. (The source also
  computes a flag \<open>consistentLength\<close> that it never reads.)\<close>

fun shortLongPattern :: "bool \<Rightarrow> nat list \<Rightarrow> bool" where
  "shortLongPattern evenIndex (currentLength # nextLength # rest) =
     ((if evenIndex then \<not> currentLength \<ge> nextLength else \<not> currentLength \<le> nextLength)
      \<and> shortLongPattern (\<not> evenIndex) (nextLength # rest))"
| "shortLongPattern evenIndex [currentLength] = True"
| "shortLongPattern evenIndex [] = True"

text \<open>The first loop: one bit for each section of four units, or of three at the end,
  until there are 16 bits.\<close>

function extractPatternBits :: "jsstring list \<Rightarrow> jsstring \<Rightarrow> jsstring" where
  "extractPatternBits contentUnits extractedBits =
     (if contentUnits = [] \<or> \<not> length extractedBits < 16 then extractedBits
      else (let section = take 4 contentUnits in
            extractPatternBits (drop 4 contentUnits)
              (if length section \<ge> 3
               then extractedBits @ [if shortLongPattern True (map length section) then 48 else 49]
               else extractedBits)))"
  by pat_completeness auto
termination
  by (relation "measure (\<lambda>(us, bits). length us)") auto

declare extractPatternBits.simps [simp del]

text \<open>The bit of one unit.\<close>

definition unitBit :: "ContentUnitAnalysis \<Rightarrow> nat" where
  "unitBit analysis =
     (if pov analysis = First then 48
      else if pov analysis = Third then 49
      else if EndingQuestion \<in> set (rhetorical analysis) then 48
      else if EndingEmphasis \<in> set (rhetorical analysis) then 49
      else if tense analysis = Past then 48
      else if tense analysis = Future then 49
      else if dialectic analysis = Narrative then 48
      else if dialectic analysis = Argumentative then 49
      else (case complexity analysis of
              None \<Rightarrow> 49
            | Some c \<Rightarrow> if c < 12 then 48 else 49))"

text \<open>The second loop: one bit for each unit, from the first unit on, until there are
  64 bits.\<close>

fun extractUnitBits :: "jsstring list \<Rightarrow> jsstring \<Rightarrow> jsstring" where
  "extractUnitBits [] extractedBits = extractedBits"
| "extractUnitBits (u # us) extractedBits =
     (if length extractedBits < 64
      then extractUnitBits us (extractedBits @ [unitBit (analyzeContentUnit u)])
      else extractedBits)"

definition structuralMarker :: jsstring where
  "structuralMarker = js ''The following explores multiple perspectives. ''"

text \<open>Every path of the decoder that finds no payload returns \<open>null\<close>. The model
  names the \<open>return null\<close> that is taken, in the order of the source: the marker is
  absent, the units are fewer than four, the bits are fewer than the 16 of the length,
  the bits are fewer than the length declares. \<open>nullable\<close> forgets the name and gives the
  value that the caller sees.\<close>

datatype nullReturn = MarkerNotFound | InsufficientUnits | NoLengthPrefix | TruncatedData

definition nullable :: "nullReturn + jsstring \<Rightarrow> jsstring option" where
  "nullable r = (case r of Inl e \<Rightarrow> None | Inr v \<Rightarrow> Some v)"

definition extractHiddenStructuralData :: "jsstring \<Rightarrow> nullReturn + jsstring" where
  "extractHiddenStructuralData text =
     (if \<not> includesStr text (js ''The following explores multiple perspectives.'')
      then Inl MarkerNotFound
      else (let contentUnits = splitContentIntoUnits text in
            if length contentUnits < 4 then Inl InsufficientUnits
            else (let extractedBits =
                        extractUnitBits contentUnits (extractPatternBits contentUnits [])
                  in if length extractedBits < 16 then Inl NoLengthPrefix
                     else (case decodeLengthPrefixed extractedBits of
                             None \<Rightarrow> Inl TruncatedData
                           | Some result \<Rightarrow> Inr result))))"

section \<open>The dominance rules in the words of the specification\<close>

text \<open>A class is dominant by doubling when it has an indicator and its count is at least
  double the combined count of the two other classes, and dominant by majority when its
  count is more than the combined count of the two others, that is more than half of the
  total.\<close>

definition doubleDominant :: "nat \<Rightarrow> nat \<Rightarrow> nat \<Rightarrow> bool" where
  "doubleDominant a b c = (0 < a \<and> 2 * (b + c) \<le> a)"

definition majorityDominant :: "nat \<Rightarrow> nat \<Rightarrow> nat \<Rightarrow> bool" where
  "majorityDominant a b c = (b + c < a)"

section \<open>The structural encoder\<close>

datatype strength = Subtle | Moderate | Aggressive

record StructuralEncodingOptions =
  minContentLength :: nat
  maxEncodableBits :: int
  preserveExistingStructure :: bool
  encodingStrength :: strength

text \<open>An entry of a table of phrases chosen by \<^verbatim>\<open>table[Math.floor(Math.random() * n)]\<close>;
  outside the table the entry is \<open>undefined\<close>, which a string concatenation writes out.\<close>

definition pick :: "jsstring list \<Rightarrow> rat \<Rightarrow> jsstring" where
  "pick table r =
     (let i = randomIndex r (length table)
      in if i < length table then table ! i else js ''undefined'')"

definition firstPersonPatterns :: "jsstring list" where
  "firstPersonPatterns =
     [js ''I remember when'', js ''As I considered'', js ''In my experience'',
      js ''Looking back, I realized'', js ''From my perspective'']"

definition thirdPersonPatterns :: "jsstring list" where
  "thirdPersonPatterns =
     [js ''They observed that'', js ''From their viewpoint'', js ''It became clear to them'',
      js ''After consideration, she decided'', js ''He recognized the pattern'']"

text \<open>The bit is the character read from the bit string; \<^verbatim>\<open>parseInt(c, 10) === 0\<close> holds
  for the character \<open>0\<close> alone.\<close>

definition transformPointOfView :: "rng \<Rightarrow> nat \<Rightarrow> jsstring \<Rightarrow> nat \<Rightarrow> jsstring \<times> nat" where
  "transformPointOfView rnd k text b =
     (if b = 48 then
        (let pattern = pick firstPersonPatterns (rnd k) in
         if \<not> firstPersonCount text > 0 then
           (case matchSentences text of
              [] \<Rightarrow> (text, Suc k)
            | s0 # _ \<Rightarrow> (pattern @ [32] @ replaceFirst text s0 [], Suc k))
         else (text, Suc k))
      else
        (let pattern = pick thirdPersonPatterns (rnd k) in
         if \<not> thirdPersonCount text > 0 then
           (case matchSentences text of
              [] \<Rightarrow> (text, Suc k)
            | s0 # _ \<Rightarrow> (pattern @ [32] @ replaceFirst text s0 [], Suc k))
         else (text, Suc k)))"

definition transformTense :: "jsstring \<Rightarrow> nat \<Rightarrow> jsstring" where
  "transformTense text b =
     (if b = 48 then
        (if \<not> matchCount (lits [''had'', ''was'', ''were'', ''previously'', ''earlier'',
                                  ''before'', ''yesterday'']) text > 0
         then replaceFirst text (js ''. '') (js ''. Previously, '') else text)
      else
        (if \<not> matchCount (lits [''will'', ''shall'', ''going to'', ''soon'', ''eventually'',
                                  ''tomorrow'']) text > 0
         then replaceFirst text (js ''. '') (js ''. Eventually, '') else text))"

text \<open>\<^verbatim>\<open>s.replace(/\b((\w+)\s+(is|are|...))\b/i, (match, p1, p2, verb) => verb + ' ' + p2)\<close>:
  at the first word that is followed by white space and by one of the verbs as a whole
  word, the word and the verb change places, with one space between them.\<close>

definition questionVerbs :: "alternative list" where
  "questionVerbs = lits [''is'', ''are'', ''was'', ''were'', ''will'', ''should'', ''could'',
                         ''would'', ''can'']"

definition subjectVerbAt :: "jsstring \<Rightarrow> (jsstring \<times> jsstring \<times> nat) option" where
  "subjectVerbAt rest =
     (let p2 = takeWhile isWordChar rest;
          afterWord = drop (length p2) rest;
          spaces = takeWhile isWhiteSpace afterWord;
          afterSpaces = drop (length spaces) afterWord
      in if p2 = [] \<or> spaces = [] then None
         else (case firstAlt questionVerbs afterSpaces of
                 None \<Rightarrow> None
               | Some n \<Rightarrow> Some (p2, take n afterSpaces, length p2 + length spaces + n)))"

fun replaceSubjectVerb :: "bool \<Rightarrow> jsstring \<Rightarrow> jsstring" where
  "replaceSubjectVerb prev [] = []"
| "replaceSubjectVerb prev (c # cs) =
     (if prev \<noteq> isWordChar c then
        (case subjectVerbAt (c # cs) of
           Some (p2, verb, n) \<Rightarrow> verb @ [32] @ p2 @ drop n (c # cs)
         | None \<Rightarrow> c # replaceSubjectVerb (isWordChar c) cs)
      else c # replaceSubjectVerb (isWordChar c) cs)"

text \<open>\<^verbatim>\<open>s.replace(/[.!]+$/, '?')\<close> and \<^verbatim>\<open>s.replace(/[.?]+$/, '!')\<close>: the run of the
  characters of the class at the end of the string, when there is one, is replaced.\<close>

definition replaceTrailing :: "(nat \<Rightarrow> bool) \<Rightarrow> jsstring \<Rightarrow> jsstring \<Rightarrow> jsstring" where
  "replaceTrailing cls rep s =
     (let run = takeWhile cls (rev s)
      in if run = [] then s else take (length s - length run) s @ rep)"

definition transformRhetoricalStructure :: "jsstring \<Rightarrow> nat \<Rightarrow> jsstring" where
  "transformRhetoricalStructure text b =
     (let sentences = matchSentences text in
      if length sentences = 0 then text
      else (let lastSentence = last sentences in
            if b = 48 then
              (if \<not> endsWith (trim lastSentence) 63 then
                 take (length text - length lastSentence) text
                 @ (if matchCount questionVerbs lastSentence > 0
                    then replaceSubjectVerb False lastSentence
                    else js ''Might we consider how ''
                         @ replaceTrailing (\<lambda>c. c = 46 \<or> c = 33) [63] (trim lastSentence))
               else text)
            else
              (if \<not> endsWith (trim lastSentence) 33 \<and> \<not> emphasisCount lastSentence > 0
               then take (length text - length lastSentence) text
                    @ replaceTrailing (\<lambda>c. c = 46 \<or> c = 63) [33] (trim lastSentence)
               else text)))"

text \<open>The analysis that \<open>transformContentStructure\<close> computes first is passed on and never
  read.\<close>

definition transformContentStructure ::
  "rng \<Rightarrow> nat \<Rightarrow> jsstring \<Rightarrow> nat \<Rightarrow> StructuralEncodingOptions \<Rightarrow> jsstring \<times> nat" where
  "transformContentStructure rnd k contentUnit b options =
     (if encodingStrength options = Aggressive then
        (let (t1, k1) = transformPointOfView rnd k contentUnit b
         in (transformTense (transformRhetoricalStructure t1 b) b, k1))
      else if encodingStrength options = Moderate then
        (let (t1, k1) = (if length contentUnit > 150
                         then transformPointOfView rnd k contentUnit b
                         else (contentUnit, k))
         in (transformRhetoricalStructure t1 b, k1))
      else (transformRhetoricalStructure contentUnit b, k))"

definition makeParagraphShorter :: "jsstring \<Rightarrow> jsstring" where
  "makeParagraphShorter paragraph =
     (let sentences = matchSentences paragraph
      in if length sentences \<le> 2 then paragraph
         else hd sentences @ [32] @ last sentences)"

text \<open>\<^verbatim>\<open>s.lastIndexOf(pat)\<close>; when there is no occurrence the result \<open>-1\<close> makes
  \<open>substring(0, -1)\<close> empty and \<open>substring(-1)\<close> the whole string.\<close>

definition lastIndexOf :: "jsstring \<Rightarrow> jsstring \<Rightarrow> nat option" where
  "lastIndexOf s pat =
     (case filter (\<lambda>i. take (length pat) (drop i s) = pat) (rev [0 ..< Suc (length s)]) of
        [] \<Rightarrow> None
      | i # _ \<Rightarrow> Some i)"

definition elaborations :: "jsstring list" where
  "elaborations =
     [js ''This illustrates the key principle at work. '',
      js ''The implications of this are significant. '',
      js ''Several factors contribute to this outcome. '',
      js ''This represents an important development. '',
      js ''Multiple perspectives can be applied to this situation. '']"

definition makeParagraphLonger :: "rng \<Rightarrow> nat \<Rightarrow> jsstring \<Rightarrow> jsstring \<times> nat" where
  "makeParagraphLonger rnd k paragraph =
     (let sentences = matchSentences paragraph in
      if length sentences = 0 then (paragraph, k)
      else (let elaboration = pick elaborations (rnd k) in
            if length sentences > 1 then
              (case lastIndexOf paragraph (last sentences) of
                 None \<Rightarrow> (elaboration @ paragraph, Suc k)
               | Some lastSentencePos \<Rightarrow>
                   (take lastSentencePos paragraph @ elaboration
                    @ drop lastSentencePos paragraph, Suc k))
            else (paragraph @ [32] @ elaboration, Suc k)))"

definition mediumElaborations :: "jsstring list" where
  "mediumElaborations =
     [js ''This represents an important consideration. '',
      js ''The pattern continues in subsequent examples. '']"

definition makeParagraphMedium :: "rng \<Rightarrow> nat \<Rightarrow> jsstring \<Rightarrow> jsstring \<times> nat" where
  "makeParagraphMedium rnd k paragraph =
     (let sentences = matchSentences paragraph in
      if length sentences = 0 then (paragraph, k)
      else if length sentences > 3 then (joinWith [32] (take 3 sentences), k)
      else if length sentences < 2
      then (paragraph @ [32] @ pick mediumElaborations (rnd k), Suc k)
      else (paragraph, k))"

text \<open>The two inner loops of \<open>transformParagraphPatterns\<close> over a section; \<open>j\<close> is the
  index in the section.\<close>

fun alternateSection :: "rng \<Rightarrow> nat \<Rightarrow> nat \<Rightarrow> jsstring list \<Rightarrow> jsstring list \<times> nat" where
  "alternateSection rnd k j [] = ([], k)"
| "alternateSection rnd k j (u # us) =
     (let (u1, k1) = (if j mod 2 = 0 then (makeParagraphShorter u, k)
                      else makeParagraphLonger rnd k u);
          (rest, k2) = alternateSection rnd k1 (Suc j) us
      in (u1 # rest, k2))"

fun mediumSection :: "rng \<Rightarrow> nat \<Rightarrow> jsstring list \<Rightarrow> jsstring list \<times> nat" where
  "mediumSection rnd k [] = ([], k)"
| "mediumSection rnd k (u # us) =
     (let (u1, k1) = makeParagraphMedium rnd k u;
          (rest, k2) = mediumSection rnd k1 us
      in (u1 # rest, k2))"

text \<open>The outer loop, over the sections of four units and the bits that are left; the
  units that it does not reach are added unchanged.\<close>

function paragraphSections ::
  "rng \<Rightarrow> nat \<Rightarrow> jsstring list \<Rightarrow> jsstring \<Rightarrow> jsstring list \<times> nat" where
  "paragraphSections rnd k contentUnits bits =
     (if contentUnits = [] \<or> bits = [] then (contentUnits, k)
      else (let section = take 4 contentUnits in
            if length section \<ge> 3 then
              (let (transformed, k1) =
                     (if hd bits = 48 then alternateSection rnd k 0 section
                      else mediumSection rnd k section);
                   (rest, k2) = paragraphSections rnd k1 (drop 4 contentUnits) (tl bits)
               in (transformed @ rest, k2))
            else (let (rest, k2) = paragraphSections rnd k (drop 4 contentUnits) bits
                  in (section @ rest, k2))))"
  by pat_completeness auto
termination
  by (relation "measure (\<lambda>(rnd, k, us, bits). length us)") auto

declare paragraphSections.simps [simp del]

definition transformParagraphPatterns ::
  "rng \<Rightarrow> nat \<Rightarrow> jsstring list \<Rightarrow> jsstring \<Rightarrow> jsstring list \<times> nat" where
  "transformParagraphPatterns rnd k contentUnits bitsToEncode =
     (if length contentUnits < 4 then (contentUnits, k)
      else paragraphSections rnd k contentUnits bitsToEncode)"

text \<open>The second pass of \<open>hideDataStructurally\<close>: unit \<open>i\<close> takes the bit of index
  \<open>i + 16\<close>, as long as \<open>i + 16 < maxBits\<close>.\<close>

fun transformUnits ::
  "rng \<Rightarrow> nat \<Rightarrow> nat \<Rightarrow> jsstring list \<Rightarrow> jsstring \<Rightarrow> int \<Rightarrow> StructuralEncodingOptions
     \<Rightarrow> jsstring list \<times> nat" where
  "transformUnits rnd k i [] bitsToEncode maxBits options = ([], k)"
| "transformUnits rnd k i (u # us) bitsToEncode maxBits options =
     (if int i + 16 < maxBits then
        (let (u1, k1) = (if i + 16 < length bitsToEncode
                         then transformContentStructure rnd k u (bitsToEncode ! (i + 16)) options
                         else (u, k));
             (rest, k2) = transformUnits rnd k1 (Suc i) us bitsToEncode maxBits options
         in (u1 # rest, k2))
      else (u # us, k))"

definition DEFAULT_OPTIONS :: StructuralEncodingOptions where
  "DEFAULT_OPTIONS = \<lparr> minContentLength = 1000, maxEncodableBits = 64,
                       preserveExistingStructure = True, encodingStrength = Moderate \<rparr>"

definition hideDataStructurally ::
  "rng \<Rightarrow> nat \<Rightarrow> jsstring \<Rightarrow> jsstring \<Rightarrow> StructuralEncodingOptions \<Rightarrow> error + (jsstring \<times> nat)" where
  "hideDataStructurally rnd k text dataToHide options =
     (if length text < minContentLength options then Inl ContentTooShort
      else (let bitsToEncode = lengthBinary dataToHide @ binaryData dataToHide;
                maxBits = min (maxEncodableBits options) (int (length bitsToEncode));
                (units1, k1) = transformParagraphPatterns rnd k (splitContentIntoUnits text)
                                 (substring bitsToEncode 0 (nat (min maxBits 16)));
                (units2, k2) = transformUnits rnd k1 0 units1 bitsToEncode maxBits options
            in Inr (structuralMarker @ joinWith [10, 10] units2, k2)))"

section \<open>JSON values\<close>

text \<open>The values that \<open>JSON.parse\<close> returns. An object is the list of its properties in
  their order; a number is an integer here (the program's metadata holds strings), of a
  size that \<open>JSON.stringify\<close> writes in plain decimal digits.\<close>

datatype json =
  JNull | JBool bool | JNum int | JStr jsstring | JArr "json list"
  | JObj "(jsstring \<times> json) list"

text \<open>\<^verbatim>\<open>v.name\<close> for the two properties the program reads, \<open>subset\<close> and \<open>id\<close>, which no
  prototype defines. The outer \<open>None\<close> is the \<open>TypeError\<close> of reading a property of
  \<open>null\<close>, the inner one the value \<open>undefined\<close>.\<close>

fun getProp :: "json \<Rightarrow> jsstring \<Rightarrow> json option option" where
  "getProp JNull name = None"
| "getProp (JObj props) name = Some (map_of props name)"
| "getProp v name = Some None"

fun truthy :: "json option \<Rightarrow> bool" where
  "truthy None = False"
| "truthy (Some JNull) = False"
| "truthy (Some (JBool b)) = b"
| "truthy (Some (JNum n)) = (n \<noteq> 0)"
| "truthy (Some (JStr s)) = (s \<noteq> [])"
| "truthy (Some (JArr xs)) = True"
| "truthy (Some (JObj props)) = True"

text \<open>\<^verbatim>\<open>a === b\<close> on two values that come from two calls of \<open>JSON.parse\<close>: primitive
  values are compared, and two objects or arrays are never the same object.\<close>

fun strictEquals :: "json option \<Rightarrow> json option \<Rightarrow> bool" where
  "strictEquals None None = True"
| "strictEquals (Some JNull) (Some JNull) = True"
| "strictEquals (Some (JBool a)) (Some (JBool b)) = (a = b)"
| "strictEquals (Some (JNum a)) (Some (JNum b)) = (a = b)"
| "strictEquals (Some (JStr a)) (Some (JStr b)) = (a = b)"
| "strictEquals a b = False"

function showNat :: "nat \<Rightarrow> jsstring" where
  "showNat n = (if n < 10 then [48 + n] else showNat (n div 10) @ [48 + n mod 10])"
  by pat_completeness auto
termination
  by (relation "measure id") auto

declare showNat.simps [simp del]

definition hexDigit :: "nat \<Rightarrow> nat" where
  "hexDigit d = (if d < 10 then 48 + d else 87 + d)"

text \<open>The escapes of a string: the backslash is the code unit 92.\<close>

definition unicodeEscape :: "nat \<Rightarrow> jsstring" where
  "unicodeEscape c =
     [92, 117, hexDigit (c div 4096 mod 16), hexDigit (c div 256 mod 16),
      hexDigit (c div 16 mod 16), hexDigit (c mod 16)]"

definition escapeUnit :: "nat \<Rightarrow> jsstring" where
  "escapeUnit c =
     (if c = 34 then [92, 34]
      else if c = 92 then [92, 92]
      else if c = 8 then [92, 98]
      else if c = 9 then [92, 116]
      else if c = 10 then [92, 110]
      else if c = 12 then [92, 102]
      else if c = 13 then [92, 114]
      else if c < 32 then unicodeEscape c
      else [c])"

text \<open>A surrogate that is not part of a pair is written as an escape.\<close>

fun quoteUnits :: "jsstring \<Rightarrow> jsstring" where
  "quoteUnits [] = []"
| "quoteUnits [c] =
     (if isHighSurrogate c \<or> isLowSurrogate c then unicodeEscape c else escapeUnit c)"
| "quoteUnits (c # d # cs) =
     (if isHighSurrogate c \<and> isLowSurrogate d then [c, d] @ quoteUnits cs
      else if isHighSurrogate c \<or> isLowSurrogate c then unicodeEscape c @ quoteUnits (d # cs)
      else escapeUnit c @ quoteUnits (d # cs))"

definition quoteString :: "jsstring \<Rightarrow> jsstring" where
  "quoteString s = [34] @ quoteUnits s @ [34]"

primrec stringify :: "json \<Rightarrow> jsstring" where
  "stringify JNull = js ''null''"
| "stringify (JBool b) = (if b then js ''true'' else js ''false'')"
| "stringify (JNum n) = (if n < 0 then [45] @ showNat (nat (- n)) else showNat (nat n))"
| "stringify (JStr s) = quoteString s"
| "stringify (JArr xs) = [91] @ joinWith [44] (map stringify xs) @ [93]"
| "stringify (JObj props) =
     [123] @ joinWith [44]
       (map (\<lambda>(k, v). quoteString k @ [58] @ v) (map (map_prod id stringify) props)) @ [125]"

section \<open>The multilayer encoder and decoder\<close>

text \<open>
  The key manager signs and verifies with the cryptographic library; both operations
  are parameters: \<open>signWithKey name content\<close> and \<open>verifySignature content signature\<close>, with
  \<open>None\<close> for \<open>null\<close>. \<open>JSON.parse\<close> is the parameter \<open>parse\<close>, with \<open>None\<close> for the
  exception it raises on a text that is not JSON. The result \<open>null\<close> of the encoder and of
  the decoder, which they return when an exception reaches their handler, is \<open>None\<close>.
  The fields of the package are \<open>content\<close>, \<open>signature\<close> and \<open>encodingInfo\<close> in the
  source.
\<close>

record EnhancedEncodingOptions =
  useZeroWidth :: bool
  useStylometric :: bool
  useStructural :: bool
  structuralStrength :: strength
  redundantEncoding :: bool

record EnhancedPackage =
  packageContent :: jsstring
  packageSignature :: jsstring
  layers :: "jsstring list"
  originalLength :: nat
  finalLength :: nat

record EnhancedDecodedResult =
  metadata :: "json option"
  signerName :: "jsstring option"
  extractionSource :: jsstring
  integrity :: bool

text \<open>\<^verbatim>\<open>JSON.stringify({ subset: name, id: metadata.id || metadata.creator })\<close>: a property
  whose value is \<open>undefined\<close> is not written. \<open>None\<close> is the \<open>TypeError\<close> for the metadata
  \<open>null\<close>.\<close>

definition subsetData :: "jsstring \<Rightarrow> json \<Rightarrow> jsstring option" where
  "subsetData name meta =
     (case getProp meta (js ''id'') of
        None \<Rightarrow> None
      | Some idValue \<Rightarrow>
          (case (if truthy idValue then Some idValue else getProp meta (js ''creator'')) of
             None \<Rightarrow> None
           | Some v \<Rightarrow>
               Some (stringify (JObj ([(js ''subset'', JStr name)]
                       @ (case v of None \<Rightarrow> [] | Some x \<Rightarrow> [(js ''id'', x)]))))))"

definition encodeEnhancedContent ::
  "(jsstring \<Rightarrow> jsstring \<Rightarrow> jsstring option) \<Rightarrow> rng \<Rightarrow> nat \<Rightarrow> jsstring \<Rightarrow> json \<Rightarrow> jsstring
     \<Rightarrow> EnhancedEncodingOptions \<Rightarrow> EnhancedPackage option" where
  "encodeEnhancedContent signWithKey rnd k originalContent meta signer options =
     (let metadataStr = stringify meta;
          (c1, layers1) =
            (if useZeroWidth options
             then (hideDataInText originalContent metadataStr, [js ''zero-width''])
             else (originalContent, []))
      in case (if useStylometric options then
                 (case (if redundantEncoding options then Some metadataStr
                        else subsetData (js ''stylometric'') meta) of
                    None \<Rightarrow> None
                  | Some stylometricData \<Rightarrow>
                      (case hideDataStylometrically rnd k c1 stylometricData of
                         Inl e \<Rightarrow> None
                       | Inr (c, k1) \<Rightarrow> Some (c, k1, layers1 @ [js ''stylometric''])))
               else Some (c1, k, layers1)) of
           None \<Rightarrow> None
         | Some (c2, k2, layers2) \<Rightarrow>
             (case (if useStructural options \<and> length c2 \<ge> 800 then
                      (case (if redundantEncoding options then Some metadataStr
                             else subsetData (js ''structural'') meta) of
                         None \<Rightarrow> None
                       | Some structuralData \<Rightarrow>
                           (case hideDataStructurally rnd k2 c2 structuralData
                                   \<lparr> minContentLength = 800, maxEncodableBits = 64,
                                     preserveExistingStructure = True,
                                     encodingStrength = structuralStrength options \<rparr> of
                              Inl e \<Rightarrow> None
                            | Inr (c, k3) \<Rightarrow> Some (c, layers2 @ [js ''structural''])))
                    else Some (c2, layers2)) of
                None \<Rightarrow> None
              | Some (processedContent, enabledLayers) \<Rightarrow>
                  (case signWithKey signer processedContent of
                     None \<Rightarrow> None
                   | Some sig \<Rightarrow>
                       if sig = [] then None
                       else Some \<lparr> packageContent = processedContent,
                                   packageSignature = sig,
                                   layers = enabledLayers,
                                   originalLength = length originalContent,
                                   finalLength = length processedContent \<rparr>)))"

text \<open>One attempt of the decoder: a result that is not \<open>null\<close> and not empty is parsed,
  and recorded when the parse succeeds.\<close>

definition tryExtraction ::
  "(jsstring \<Rightarrow> json option) \<Rightarrow> jsstring \<Rightarrow> jsstring option \<Rightarrow> (jsstring \<times> json) list" where
  "tryExtraction parse source extracted =
     (case extracted of
        None \<Rightarrow> []
      | Some str \<Rightarrow>
          if str = [] then []
          else (case parse str of None \<Rightarrow> [] | Some parsedData \<Rightarrow> [(source, parsedData)]))"

definition extractionResults ::
  "(jsstring \<Rightarrow> json option) \<Rightarrow> jsstring \<Rightarrow> (jsstring \<times> json) list" where
  "extractionResults parse encodedContent =
     tryExtraction parse (js ''structural'')
       (nullable (extractHiddenStructuralData encodedContent))
     @ tryExtraction parse (js ''stylometric'') (extractHiddenStylometricData encodedContent)
     @ tryExtraction parse (js ''zero-width'') (extractHiddenData encodedContent)"

text \<open>The loop of the integrity check over the results after the first; \<open>None\<close> is the
  \<open>TypeError\<close> that sends the decoder to its handler.\<close>

fun integrityLoop :: "json \<Rightarrow> (jsstring \<times> json) list \<Rightarrow> bool \<Rightarrow> bool option" where
  "integrityLoop primaryData [] ok = Some ok"
| "integrityLoop primaryData ((source, currentResult) # rest) ok =
     (case getProp currentResult (js ''subset'') of
        None \<Rightarrow> None
      | Some subsetValue \<Rightarrow>
          if truthy subsetValue then
            (case getProp primaryData (js ''id'') of
               None \<Rightarrow> None
             | Some primaryId \<Rightarrow>
                 if truthy primaryId then
                   (case getProp currentResult (js ''id'') of
                      None \<Rightarrow> None
                    | Some currentId \<Rightarrow>
                        integrityLoop primaryData rest
                          (if \<not> strictEquals currentId primaryId then False else ok))
                 else integrityLoop primaryData rest ok)
          else integrityLoop primaryData rest
                 (if stringify currentResult \<noteq> stringify primaryData then False else ok))"

definition decodeEnhancedContent ::
  "(jsstring \<Rightarrow> jsstring \<Rightarrow> jsstring option) \<Rightarrow> (jsstring \<Rightarrow> json option) \<Rightarrow> jsstring \<Rightarrow> jsstring
     \<Rightarrow> EnhancedDecodedResult option" where
  "decodeEnhancedContent verifySignature parse encodedContent sig =
     (case verifySignature encodedContent sig of
        None \<Rightarrow> Some \<lparr> metadata = None, signerName = None, extractionSource = js ''none'',
                       integrity = False \<rparr>
      | Some name \<Rightarrow>
          if name = [] then Some \<lparr> metadata = None, signerName = None,
                                   extractionSource = js ''none'', integrity = False \<rparr>
          else (case extractionResults parse encodedContent of
                  [] \<Rightarrow> Some \<lparr> metadata = None, signerName = Some name,
                                extractionSource = js ''none'', integrity = False \<rparr>
                | (source, primaryData) # others \<Rightarrow>
                    (case integrityLoop primaryData others True of
                       None \<Rightarrow> None
                     | Some ok \<Rightarrow>
                         Some \<lparr> metadata = Some primaryData, signerName = Some name,
                                extractionSource = source, integrity = ok \<rparr>)))"



text \<open>The characters that \<open>hideDataInText\<close> inserts for the data \<open>d\<close>.\<close>

definition zeroWidthFrame :: "jsstring \<Rightarrow> jsstring" where
  "zeroWidthFrame d =
     preamble @ encodeSymbols (lengthBinary d) @ encodeSymbols (binaryData d) @ epilogue"

section \<open>Sample inputs\<close>

text \<open>A plain text of 200 characters.\<close>

definition scenarioA :: jsstring where
  "scenarioA = js ''The quick brown fox jumps over the lazy dog near the quiet river bank while the sun sets slowly behind the distant hills and a gentle breeze moves through the tall green grass of the open meadow today''"

text \<open>Three short sentences, none of three words.\<close>

definition shortSentences :: jsstring where
  "shortSentences = js ''Go on. Stop now. Hi there.''"

text \<open>Two paragraphs of one sentence of three words each.\<close>

definition twoParagraphs :: jsstring where
  "twoParagraphs = js ''One two three.'' @ [10, 10] @ js ''Four five six.''"

text \<open>A unit in the past tense, with no pronoun, no question, no emphasis and no
  metaphor.\<close>

definition pastUnit :: jsstring where
  "pastUnit = js ''We walked home.''"

text \<open>A unit with three argumentative and two narrative connectives.\<close>

definition connectiveUnit :: jsstring where
  "connectiveUnit = js ''So we left, so we ran, so we hid; then we ate, then we slept.''"




text \<open>A source of randomness that always draws one half.\<close>

definition halfRandom :: rng where
  "halfRandom k = 1 / 2"

text \<open>A paragraph of sixteen sentences of three or four words.\<close>

definition middleParagraph :: jsstring where
  "middleParagraph = js ''It is very good. We go on. We go on. We go on. We go on. We go on. We go on. We go on. We go on. We go on. We go on. We go on. We go on. We go on. We go on. We go on.''"

text \<open>A document of three paragraphs, the second of sixteen sentences, and the same
  document behind the stylometric marker.\<close>

definition threeParagraphs :: jsstring where
  "threeParagraphs = js ''Hello.'' @ [10, 10]
     @ js ''It is very good. We go on. We go on. We go on. We go on. We go on. We go on. We go on. We go on. We go on. We go on. We go on. We go on. We go on. We go on. We go on.''
     @ [10, 10] @ js ''End.''"

definition threeParagraphsEncoded :: jsstring where
  "threeParagraphsEncoded = js ''Please note the following information carefully. Hello.''
     @ [10, 10]
     @ js ''It is very good. We go on. We go on. We go on. We go on. We go on. We go on. We go on. We go on. We go on. We go on. We go on. We go on. We go on. We go on. We go on.''
     @ [10, 10] @ js ''End.''"

text \<open>A document of six paragraphs of 200 characters each, 1210 characters in all.\<close>

definition scenarioB :: jsstring where
  "scenarioB = joinWith [10, 10] (replicate 6 scenarioA)"




text \<open>A document of three paragraphs, the second of 32 sentences: 340 characters. Its
  seventeenth character is the \<open>y\<close> of \<open>very\<close>.\<close>

definition original :: jsstring where
  "original = js ''Hello.'' @ [10, 10]
     @ js ''It is very good.'' @ concat (replicate 31 (js '' We go on.''))
     @ [10, 10] @ js ''End.''"

text \<open>The document after the zero-width layer for the data \<^verbatim>\<open>{}\<close>: the frame stands
  before the seventeenth character.\<close>

definition framedSentence :: jsstring where
  "framedSentence = js ''It is ver'' @ zeroWidthFrame (js ''{}'') @ js ''y good.''"

definition middleLayer :: jsstring where
  "middleLayer = framedSentence @ concat (replicate 31 (js '' We go on.''))"

definition layer1 :: jsstring where
  "layer1 = js ''Hello.'' @ [10, 10]
     @ framedSentence @ concat (replicate 31 (js '' We go on.''))
     @ [10, 10] @ js ''End.''"

text \<open>The document after the stylometric layer for the same data, whose 32 bits are
  \<open>0000000000010000\<close> and \<open>0111101101111101\<close>: the sentences that carry a one end with a
  question mark. The second definition is the list of the last 31 sentences as the
  regular expression cuts them.\<close>

definition encodedTail :: jsstring where
  "encodedTail = js ''We go on. We go on. We go on. We go on. We go on. We go on. We go on. We go on. We go on. We go on. We go on? We go on. We go on. We go on. We go on. We go on. We go on? We go on? We go on? We go on? We go on. We go on? We go on? We go on. We go on? We go on? We go on? We go on? We go on? We go on. We go on?''"

definition encodedSentences :: "jsstring list" where
  "encodedSentences = map (\<lambda>b. if b = 48 then js '' We go on.'' else js '' We go on?'')
                        (js ''0000000000100000111101101111101'')"

definition encodedDocument :: jsstring where
  "encodedDocument = js ''Please note the following information carefully. Hello.'' @ [10, 10]
     @ framedSentence @ [32] @ encodedTail @ [10, 10] @ js ''End.''"

text \<open>The same document without its zero-width characters.\<close>

definition strippedDocument :: jsstring where
  "strippedDocument = js ''Please note the following information carefully. Hello.'' @ [10, 10]
     @ js ''It is very good. '' @ encodedTail @ [10, 10] @ js ''End.''"

text \<open>What the stylometric encoder makes of the sentence \<^emph>\<open>We go on.\<close> for one bit, with
  the draws of \<open>halfRandom\<close>, and the number of draws it takes.\<close>

definition encodedSentence :: "nat \<Rightarrow> jsstring" where
  "encodedSentence b = (if b = 48 then js ''We go on. '' else js ''We go on? '')"

definition calls :: "nat \<Rightarrow> nat" where
  "calls b = (if b = 48 then 8 else 2)"

text \<open>All layers, redundant mode; a key manager that signs and verifies everything.\<close>

definition allLayers :: EnhancedEncodingOptions where
  "allLayers = \<lparr> useZeroWidth = True, useStylometric = True, useStructural = True,
                 structuralStrength = Moderate, redundantEncoding = True \<rparr>"

definition signAll :: "jsstring \<Rightarrow> jsstring \<Rightarrow> jsstring option" where
  "signAll name content = Some (js ''signed'')"

definition verifyAll :: "jsstring \<Rightarrow> jsstring \<Rightarrow> jsstring option" where
  "verifyAll content sig = Some (js ''alice'')"

text \<open>The text \<^verbatim>\<open>{"subset":1,"id":2}\<close>, and \<^verbatim>\<open>JSON.parse\<close> on the two texts that the
  samples hold, \<^verbatim>\<open>{}\<close> and this one (on any other text this parser fails).\<close>

definition subsetText :: jsstring where
  "subsetText = [123, 34] @ js ''subset'' @ [34, 58, 49, 44, 34] @ js ''id'' @ [34, 58, 50, 125]"

definition parseSample :: "jsstring \<Rightarrow> json option" where
  "parseSample s =
     (if s = js ''{}'' then Some (JObj [])
      else if s = subsetText then Some (JObj [(js ''subset'', JNum 1), (js ''id'', JNum 2)])
      else None)"




section \<open>Properties of the zero-width channel\<close>

subsection \<open>Strings and binary digits\<close>

lemma replicate_num: "replicate (numeral k) x = x # replicate (pred_numeral k) x"
  by (simp add: numeral_eq_Suc)

lemma slice0: "0 \<le> p \<or> s = [] \<Longrightarrow> slice s 0 p = take (nat p) s"
  by (auto simp: slice_def relIndex_def Let_def min_def)

lemma sliceFrom_drop: "0 \<le> p \<or> s = [] \<Longrightarrow> sliceFrom s p = drop (nat p) s"
  by (auto simp: sliceFrom_def relIndex_def min_def)

lemma slice_prefix: "slice (a @ b) 0 (int (length a)) = a"
  by (simp add: slice_def relIndex_def Let_def)

lemma slice_suffix: "slice (a @ b) (int (length a)) (int (length a) + int (length b)) = b"
  by (simp add: slice_def relIndex_def Let_def)

lemma substring_middle:
  "substring (pre @ mid @ content @ rest) (length pre + length mid)
     (length pre + length mid + length content) = content"
  by (simp add: substring_def Let_def min_def max_def)

lemma insertPosition_ge: "0 \<le> insertPosition text \<or> text = []"
  by (cases "text") (simp_all add: insertPosition_def)

lemma toBinary_digits: "set (toBinary n) \<subseteq> {48, 49}"
proof (induction n rule: toBinary.induct)
  case (1 n)
  show ?case
  proof (cases "n < 2")
    case True
    then have "n = 0 \<or> n = 1" by auto
    then show ?thesis by (auto simp: toBinary.simps [of n])
  next
    case False
    have "n mod 2 = 0 \<or> n mod 2 = 1" by auto
    with False 1 show ?thesis by (subst toBinary.simps) auto
  qed
qed

lemma binValue_snoc: "binValue (ds @ [d]) = 2 * binValue ds + (d - 48)"
  by (simp add: binValue_def)

lemma binValue_toBinary: "binValue (toBinary n) = n"
proof (induction n rule: toBinary.induct)
  case (1 n)
  show ?case
  proof (cases "n < 2")
    case True
    then show ?thesis by (simp add: toBinary.simps [of n] binValue_def)
  next
    case False
    with 1 show ?thesis by (subst toBinary.simps) (simp add: binValue_snoc)
  qed
qed

lemma length_toBinary: "n < 2 ^ k \<Longrightarrow> 0 < k \<Longrightarrow> length (toBinary n) \<le> k"
proof (induction n arbitrary: k rule: toBinary.induct)
  case (1 n)
  show ?case
  proof (cases "n < 2")
    case True
    with 1 show ?thesis by (simp add: toBinary.simps [of n])
  next
    case False
    then obtain k' where k: "k = Suc k'" using 1(3) by (cases k) auto
    with False 1(2) have "0 < k'" by (cases k') auto
    moreover have "n div 2 < 2 ^ k'" using 1(2) k by auto
    ultimately have "length (toBinary (n div 2)) \<le> k'" using 1(1) False by blast
    then show ?thesis using False k by (subst toBinary.simps) simp
  qed
qed

lemma length_toBinary_lower: "2 ^ k \<le> n \<Longrightarrow> k < length (toBinary n)"
proof (induction n arbitrary: k rule: toBinary.induct)
  case (1 n)
  show ?case
  proof (cases k)
    case 0
    then show ?thesis by (subst toBinary.simps) simp
  next
    case (Suc k')
    have a: "2 * 2 ^ k' \<le> n" using 1(2) Suc by simp
    have b: "(1::nat) \<le> 2 ^ k'" by simp
    from a b have n2: "\<not> n < 2" by linarith
    from a have "2 ^ k' \<le> n div 2" by arith
    with 1(1) n2 have "k' < length (toBinary (n div 2))" by blast
    then show ?thesis using n2 Suc by (subst toBinary.simps) simp
  qed
qed

lemma binValue_pad: "binValue (replicate k 48 @ s) = binValue s"
  by (induction k) (simp_all add: binValue_def)

lemma binValue_zeros: "binValue (s @ replicate k 48) = binValue s * 2 ^ k"
proof (induction k)
  case 0
  show ?case by simp
next
  case (Suc k)
  have "s @ replicate (Suc k) 48 = (s @ replicate k 48) @ [48]"
    by (simp add: replicate_append_same)
  then show ?case using Suc binValue_snoc [of "s @ replicate k 48" 48] by simp
qed

lemma parseInt2_digits:
  assumes "set s \<subseteq> {48, 49}" and "s \<noteq> []"
  shows "parseInt2 s = Some (binValue s)"
proof -
  from assms(1) have tw: "takeWhile (\<lambda>c. c = 48 \<or> c = 49) s = s"
    by (intro takeWhile_eq_all_conv [THEN iffD2]) auto
  show ?thesis unfolding parseInt2_def Let_def tw using assms(2) by simp
qed

lemma padStart_digits: "set (padStart k (toBinary n)) \<subseteq> {48, 49}"
  using toBinary_digits [of n] by (auto simp: padStart_def)

lemma length_padStart: "length s \<le> k \<Longrightarrow> length (padStart k s) = k"
  by (simp add: padStart_def)

lemma charCodes_bytes: "\<forall>c \<in> set d. c < 256 \<Longrightarrow> charCodes d = d"
  by (induction d rule: charCodes.induct) (auto simp: isHighSurrogate_def)

lemma byte_bits:
  assumes "c < 256"
  shows "length (padStart 8 (toBinary c)) = 8"
    and "parseInt2 (padStart 8 (toBinary c)) = Some c"
proof -
  have "length (toBinary c) \<le> 8" using assms length_toBinary [of c 8] by simp
  then show len: "length (padStart 8 (toBinary c)) = 8" by (rule length_padStart)
  then have ne: "padStart 8 (toBinary c) \<noteq> []" by auto
  show "parseInt2 (padStart 8 (toBinary c)) = Some c"
    using parseInt2_digits [OF padStart_digits ne]
    by (simp add: padStart_def binValue_pad binValue_toBinary)
qed

lemma bitsToChars_bytes:
  "\<forall>c \<in> set cs. c < 256 \<Longrightarrow>
     bitsToChars (concat (map (\<lambda>c. padStart 8 (toBinary c)) cs)) = cs"
proof (induction cs)
  case Nil
  show ?case by (simp add: bitsToChars.simps [of "[]"])
next
  case (Cons c cs)
  then have c: "c < 256" by simp
  let ?b = "padStart 8 (toBinary c)"
  let ?rest = "concat (map (\<lambda>c. padStart 8 (toBinary c)) cs)"
  have ne: "?b @ ?rest \<noteq> []" using byte_bits(1) [OF c] by auto
  have "bitsToChars (?b @ ?rest) = fromCharCode (parseInt2 ?b) # bitsToChars ?rest"
    using ne byte_bits(1) [OF c] by (subst bitsToChars.simps) simp
  also have "\<dots> = c # cs"
    using Cons c by (simp add: byte_bits(2) fromCharCode_def)
  finally show ?case by simp
qed

lemma length_bitsToChars: "length (bitsToChars bits) = (length bits + 7) div 8"
proof (induction bits rule: bitsToChars.induct)
  case (1 bits)
  show ?case
  proof (cases "bits = []")
    case True
    then show ?thesis by (simp add: bitsToChars.simps [of "[]"])
  next
    case False
    then have "length (bitsToChars bits) = Suc ((length (drop 8 bits) + 7) div 8)"
      using 1 by (subst bitsToChars.simps) simp
    also have "\<dots> = (length bits + 7) div 8"
      using False by (cases "length bits < 8") (auto simp: Suc_leI le_div_geq)
    finally show ?thesis .
  qed
qed

lemma length_binaryData_bytes:
  "\<forall>c \<in> set d. c < 256 \<Longrightarrow> length (binaryData d) = 8 * length d"
  by (induction d) (simp_all add: binaryData_def charCodes_bytes byte_bits(1))

lemma binaryData_digits: "set (binaryData d) \<subseteq> {48, 49}"
  using padStart_digits by (fastforce simp: binaryData_def)

lemma lengthBinary_digits: "set (lengthBinary d) \<subseteq> {48, 49}"
  unfolding lengthBinary_def by (rule padStart_digits)

subsection \<open>The frame and its decoding\<close>

lemma decode_encode: "set bits \<subseteq> {48, 49} \<Longrightarrow> decodeSymbols (encodeSymbols bits) = bits"
  by (induction bits) (auto simp: decodeSymbols_def encodeSymbols_def ZWSP_def ZWNJ_def)

lemma ZWJ_notin_encode: "ZWJ \<notin> set (encodeSymbols bits)"
  by (auto simp: encodeSymbols_def ZWSP_def ZWNJ_def ZWJ_def)

lemma set_encodeSymbols: "set (encodeSymbols bits) \<subseteq> {ZWSP, ZWNJ}"
  by (auto simp: encodeSymbols_def)

lemma length_encodeSymbols: "length (encodeSymbols bits) = length bits"
  by (simp add: encodeSymbols_def)

lemma encodeSymbols_append: "encodeSymbols (a @ b) = encodeSymbols a @ encodeSymbols b"
  by (simp add: encodeSymbols_def)

lemma length_decodeSymbols: "length (decodeSymbols x) = length x"
  by (simp add: decodeSymbols_def)

lemma hide_shape:
  "hideDataInText text d =
     take (nat (insertPosition text)) text @ preamble @ encodeSymbols (lengthBinary d)
       @ encodeSymbols (binaryData d) @ epilogue @ drop (nat (insertPosition text)) text"
  by (simp add: hideDataInText_def Let_def slice0 sliceFrom_drop insertPosition_ge)

lemma indexOfAux_skip:
  "ZWJ \<notin> set pre \<Longrightarrow> indexOfAux preamble (pre @ preamble @ rest) i = Some (i + length pre)"
proof (induction pre arbitrary: i)
  case Nil
  show ?case by (simp add: preamble_def numeral_3_eq_3)
next
  case (Cons c pre)
  then show ?case by (auto simp: preamble_def numeral_3_eq_3)
qed

lemma indexOf_preamble:
  "ZWJ \<notin> set pre \<Longrightarrow> indexOf (pre @ preamble @ rest) preamble 0 = Some (length pre)"
  using indexOfAux_skip [of pre rest 0] by (simp add: indexOf_def)

lemma indexOf_epilogue:
  assumes "ZWJ \<notin> set content"
  shows "indexOf (pre @ preamble @ content @ epilogue @ post) epilogue
           (length pre + length preamble) = Some (length pre + length preamble + length content)"
proof -
  have "drop (length pre + length preamble) (pre @ preamble @ content @ epilogue @ post)
          = content @ preamble @ post"
    by (simp add: epilogue_def preamble_def)
  then show ?thesis
    using indexOfAux_skip [OF assms, of post "length pre + length preamble"]
    by (simp add: indexOf_def)
qed

lemma extract_framed:
  assumes "ZWJ \<notin> set pre" and "ZWJ \<notin> set content"
  shows "extractHiddenData (pre @ preamble @ content @ epilogue @ post)
           = Some (decodeContent content)"
  unfolding extractHiddenData_def
  by (simp only: indexOf_preamble [OF assms(1)] indexOf_epilogue [OF assms(2)]
        option.case substring_middle)

lemma lengthBinary_small:
  assumes "length (binaryData p) < 65536"
  shows "length (lengthBinary p) = 16"
    and "parseInt2 (lengthBinary p) = Some (length (binaryData p))"
proof -
  let ?n = "length (binaryData p)"
  have "length (toBinary ?n) \<le> 16" using assms length_toBinary [of ?n 16] by simp
  then show len: "length (lengthBinary p) = 16"
    unfolding lengthBinary_def by (rule length_padStart)
  then have ne: "lengthBinary p \<noteq> []" by auto
  from parseInt2_digits [OF lengthBinary_digits ne]
  show "parseInt2 (lengthBinary p) = Some ?n"
    by (simp add: lengthBinary_def padStart_def binValue_pad binValue_toBinary)
qed

lemma lengthBinary_large:
  assumes "65535 < length (binaryData p)"
  shows "16 < length (lengthBinary p)"
proof -
  have "(2::nat) ^ 16 \<le> length (binaryData p)" using assms by simp
  then have "16 < length (toBinary (length (binaryData p)))" by (rule length_toBinary_lower)
  then show ?thesis by (simp add: lengthBinary_def padStart_def)
qed

lemma decodeContent_frame:
  assumes "length (binaryData p) < 65536"
  shows "decodeContent (encodeSymbols (lengthBinary p) @ encodeSymbols (binaryData p))
           = bitsToChars (binaryData p)"
proof -
  let ?L = "encodeSymbols (lengthBinary p)" and ?D = "encodeSymbols (binaryData p)"
  have lenL: "length ?L = 16"
    by (simp add: length_encodeSymbols lengthBinary_small(1) [OF assms])
  have s1: "slice (?L @ ?D) 0 16 = ?L"
    using slice_prefix [of ?L ?D] lenL by simp
  have p1: "parseInt2 (decodeSymbols ?L) = Some (length (binaryData p))"
    by (simp add: decode_encode [OF lengthBinary_digits] lengthBinary_small(2) [OF assms])
  have s2: "slice (?L @ ?D) 16 (16 + int (length (binaryData p))) = ?D"
    using slice_suffix [of ?L ?D] lenL by (simp add: length_encodeSymbols)
  show ?thesis
    by (simp add: decodeContent_def s1 p1 s2 decode_encode [OF binaryData_digits])
qed

subsection \<open>Round trip of the zero-width channel\<close>

text \<open>
  Claim C1, as amended. Of the three channels, the zero-width channel recovers the payload
  exactly: for every payload \<open>p\<close> of bytes (character codes 0 to 255) of at most 8191
  bytes, so that its bit length fits the 16-bit length field, and every text, of any
  length, in which no U+200D occurs before the insertion offset,
  \<open>extractHiddenData (hideDataInText text p)\<close> is \<open>p\<close>. The 200-character text with the
  payload \<open>hi\<close> is an instance. The stylometric and the structural channel have no such
  property: the section on their round trips has a text and a payload for each on which
  the round trip fails.
\<close>

theorem C1_invisible_round_trip:
  assumes "ZWJ \<notin> set (take (nat (insertPosition text)) text)"
    and "\<forall>c \<in> set p. c < 256"
    and "length p < 8192"
  shows "extractHiddenData (hideDataInText text p) = Some p"
proof -
  let ?content = "encodeSymbols (lengthBinary p) @ encodeSymbols (binaryData p)"
  have small: "length (binaryData p) < 65536"
    using assms(2,3) by (simp add: length_binaryData_bytes)
  have nz: "ZWJ \<notin> set ?content"
    using ZWJ_notin_encode by simp
  have "extractHiddenData (hideDataInText text p) = Some (decodeContent ?content)"
    using extract_framed [OF assms(1) nz] by (simp add: hide_shape)
  also have "decodeContent ?content = bitsToChars (binaryData p)"
    by (rule decodeContent_frame [OF small])
  also have "\<dots> = p"
    using assms(2) by (simp add: binaryData_def charCodes_bytes bitsToChars_bytes)
  finally show ?thesis .
qed

lemma scenarioA_plain: "length scenarioA = 200" "\<forall>c \<in> set scenarioA. c < 128"
  by (simp_all add: scenarioA_def)

theorem C1_invisible_round_trip_witness:
  "ZWJ \<notin> set (take (nat (insertPosition scenarioA)) scenarioA)
   \<and> list_all (\<lambda>c. c < 256) (js ''hi'')
   \<and> length (js ''hi'') < 8192
   \<and> length scenarioA = 200
   \<and> extractHiddenData (hideDataInText scenarioA (js ''hi'')) = Some (js ''hi'')"
proof -
  have "ZWJ \<notin> set scenarioA" using scenarioA_plain(2) by (auto simp: ZWJ_def)
  then have h1: "ZWJ \<notin> set (take (nat (insertPosition scenarioA)) scenarioA)"
    by (auto dest: in_set_takeD)
  have h2: "\<forall>c \<in> set (js ''hi''). c < 256" by simp
  have h3: "length (js ''hi'') < 8192" by simp
  show ?thesis
    using C1_invisible_round_trip [OF h1 h2 h3] h1 scenarioA_plain(1) by simp
qed

lemma insertPosition_a200: "insertPosition (replicate 200 97) = 11"
  by (simp add: insertPosition_def splitSpaceCount_def count_list_0_iff)

lemma toBinary_65536: "toBinary 65536 = 49 # replicate 16 48"
  by (simp add: toBinary.simps replicate_num)

lemma parse_one_zeros: "parseInt2 (49 # replicate 15 48) = Some 32768"
proof -
  have "parseInt2 (49 # replicate 15 48) = Some (binValue ([49] @ replicate 15 48))"
    using parseInt2_digits [of "49 # replicate 15 48"] by simp
  also have "binValue ([49] @ replicate 15 48) = 32768"
    unfolding binValue_zeros by (simp add: binValue_def)
  finally show ?thesis .
qed

lemma oversize_lengthBinary:
  "length (binaryData p) = 65536 \<Longrightarrow> lengthBinary p = (49 # replicate 15 48) @ [48]"
  by (simp add: lengthBinary_def toBinary_65536 padStart_def replicate_num)

lemma oversize_decodes_short:
  assumes "length (binaryData p) = 65536"
  shows "length (decodeContent (encodeSymbols (lengthBinary p) @ encodeSymbols (binaryData p)))
           = 4096"
proof -
  let ?D = "encodeSymbols (binaryData p)"
  let ?c = "encodeSymbols (lengthBinary p) @ ?D"
  note lb = oversize_lengthBinary [OF assms]
  have c: "?c = encodeSymbols (49 # replicate 15 48) @ (encodeSymbols [48] @ ?D)"
    by (simp only: lb encodeSymbols_append append_assoc)
  have hd16: "slice ?c 0 16 = encodeSymbols (49 # replicate 15 48)"
    unfolding c
    using slice_prefix [of "encodeSymbols (49 # replicate 15 48)" "encodeSymbols [48] @ ?D"]
    by (simp add: length_encodeSymbols)
  have dg: "set (49 # replicate 15 48) \<subseteq> {48, 49::nat}" by auto
  have pi: "parseInt2 (decodeSymbols (slice ?c 0 16)) = Some 32768"
    unfolding hd16 decode_encode [OF dg] by (rule parse_one_zeros)
  have lenc: "length ?c = 65553" by (simp add: lb length_encodeSymbols assms)
  have "length (slice ?c 16 (16 + 32768)) = 32768"
    using lenc by (simp add: slice_def relIndex_def Let_def)
  then show ?thesis
    by (simp add: decodeContent_def pi length_bitsToChars length_decodeSymbols)
qed

lemma oversize_round_trip_fails:
  "extractHiddenData (hideDataInText (replicate 200 97) (replicate 8192 104))
     \<noteq> Some (replicate 8192 104)"
proof -
  let ?p = "replicate 8192 (104::nat)"
  let ?content = "encodeSymbols (lengthBinary ?p) @ encodeSymbols (binaryData ?p)"
  have len: "length (binaryData ?p) = 65536"
    by (simp add: length_binaryData_bytes)
  have nz: "ZWJ \<notin> set ?content" using ZWJ_notin_encode by simp
  have pre: "ZWJ \<notin> set (take 11 (replicate 200 (97::nat)))" by (simp add: ZWJ_def)
  have "extractHiddenData (hideDataInText (replicate 200 97) ?p) = Some (decodeContent ?content)"
    using extract_framed [OF pre nz] by (simp add: hide_shape insertPosition_a200)
  moreover have "length (decodeContent ?content) = 4096"
    by (rule oversize_decodes_short [OF len])
  ultimately show ?thesis by auto
qed

lemma zwj_text_round_trip_fails:
  "extractHiddenData (hideDataInText (replicate 3 ZWJ @ replicate 197 97) (js ''hi'')) = Some []"
proof -
  let ?text = "replicate 3 ZWJ @ replicate 197 (97::nat)"
  have pos: "insertPosition ?text = 11"
    by (simp add: insertPosition_def splitSpaceCount_def count_list_0_iff ZWJ_def)
  have t: "take 11 ?text = [] @ preamble @ replicate 8 97 @ []"
    by (simp add: preamble_def replicate_num)
  have h: "hideDataInText ?text (js ''hi'')
        = [] @ preamble @ replicate 8 97 @ epilogue
          @ (encodeSymbols (lengthBinary (js ''hi'')) @ encodeSymbols (binaryData (js ''hi''))
              @ epilogue @ drop 11 ?text)"
    unfolding hide_shape pos by (simp add: t epilogue_def preamble_def)
  have "extractHiddenData (hideDataInText ?text (js ''hi'')) = Some (decodeContent (replicate 8 97))"
    unfolding h by (rule extract_framed) (simp_all add: ZWJ_def)
  also have "decodeContent (replicate 8 97) = []"
    by (simp add: decodeContent_def slice_def relIndex_def decodeSymbols_def ZWSP_def
        parseInt2_def binValue_def bitsToChars.simps replicate_num)
  finally show ?thesis .
qed

subsection \<open>Truncated frames\<close>

text \<open>
  Claim C2. A decoder must fail when the length field declares more data bits than are
  present. \<open>extractHiddenData\<close> does not: on a frame whose length field declares 16 bits
  and that holds 8, it returns the one character that the 8 bits spell, where the claim
  requires \<open>null\<close>.
\<close>

theorem C2_truncated_frame_accepted:
  "extractHiddenData
     (js ''ab'' @ preamble @ encodeSymbols (js ''0000000000010000'')
        @ encodeSymbols (js ''01101000'') @ epilogue @ js ''cd'') = Some (js ''h'')"
proof -
  let ?content = "encodeSymbols (js ''0000000000010000'') @ encodeSymbols (js ''01101000'')"
  have "extractHiddenData (js ''ab'' @ preamble @ ?content @ epilogue @ js ''cd'')
          = Some (decodeContent ?content)"
    by (rule extract_framed) (simp_all add: ZWJ_def encodeSymbols_def ZWSP_def ZWNJ_def)
  also have "decodeContent ?content = js ''h''"
    by (simp add: decodeContent_def slice_def relIndex_def decodeSymbols_def encodeSymbols_def
        ZWSP_def ZWNJ_def parseInt2_def binValue_def bitsToChars.simps fromCharCode_def)
  finally show ?thesis by simp
qed

subsection \<open>Payloads beyond the length field\<close>

lemma hideDataStructurally_accepts:
  "minContentLength options \<le> length text \<Longrightarrow> \<not> isl (hideDataStructurally rnd k text d options)"
  by (simp add: hideDataStructurally_def Let_def split: prod.splits)

lemma length_scenarioB: "length scenarioB = 1210"
  by (simp add: scenarioB_def replicate_num scenarioA_plain(1))

text \<open>
  Claim C3. An encoder must fail on a payload of more than 65535 bits. The source says of
  the length field \<^emph>\<open>Encode length as 16-bit binary\<close> and of the decoder
  \<^emph>\<open>Extract length (first 16 bits)\<close>, but no encoder compares the payload with that
  limit. For a payload of 8192 bytes, that is 65536 bits, \<open>hideDataInText\<close> returns the
  text with a frame whose length field has 17 symbols, from which \<open>extractHiddenData\<close>
  does not recover the payload; and \<open>hideDataStructurally\<close> returns a result on a text of
  1210 characters.
\<close>

theorem C3_oversize_payload_accepted:
  "65535 < length (binaryData (replicate 8192 104))
   \<and> hideDataInText (replicate 200 97) (replicate 8192 104)
       = replicate 11 97 @ preamble @ encodeSymbols (49 # replicate 16 48)
         @ encodeSymbols (binaryData (replicate 8192 104)) @ epilogue @ replicate 189 97
   \<and> extractHiddenData (hideDataInText (replicate 200 97) (replicate 8192 104))
       \<noteq> Some (replicate 8192 104)
   \<and> \<not> isl (hideDataStructurally halfRandom 0 scenarioB (replicate 8192 104) DEFAULT_OPTIONS)"
proof -
  have len: "length (binaryData (replicate 8192 104)) = 65536"
    by (simp add: length_binaryData_bytes)
  have "lengthBinary (replicate 8192 104) = 49 # replicate 16 48"
    using oversize_lengthBinary [OF len] by (simp add: replicate_num)
  then have "hideDataInText (replicate 200 97) (replicate 8192 104)
       = replicate 11 97 @ preamble @ encodeSymbols (49 # replicate 16 48)
         @ encodeSymbols (binaryData (replicate 8192 104)) @ epilogue @ replicate 189 97"
    by (simp add: hide_shape insertPosition_a200)
  moreover have "\<not> isl (hideDataStructurally halfRandom 0 scenarioB (replicate 8192 104)
                        DEFAULT_OPTIONS)"
    by (rule hideDataStructurally_accepts) (simp add: DEFAULT_OPTIONS_def length_scenarioB)
  ultimately show ?thesis
    using len oversize_round_trip_fails by simp
qed

subsection \<open>Only invisible characters are inserted\<close>

lemma stripZeroWidth_plain:
  "\<forall>c \<in> set s. c \<notin> {ZWSP, ZWNJ, ZWJ} \<Longrightarrow> stripZeroWidth s = s"
  unfolding stripZeroWidth_def
  by (rule filter_True) (auto simp: ZWSP_def ZWNJ_def ZWJ_def)

lemma stripZeroWidth_block: "set s \<subseteq> {ZWSP, ZWNJ, ZWJ} \<Longrightarrow> stripZeroWidth s = []"
  unfolding stripZeroWidth_def
  by (auto simp: filter_empty_conv ZWSP_def ZWNJ_def ZWJ_def)

lemma stripZeroWidth_append: "stripZeroWidth (a @ b) = stripZeroWidth a @ stripZeroWidth b"
  by (simp add: stripZeroWidth_def)

lemma set_zeroWidthFrame: "set (zeroWidthFrame d) \<subseteq> {ZWSP, ZWNJ, ZWJ}"
  using set_encodeSymbols by (auto simp: zeroWidthFrame_def preamble_def epilogue_def)

text \<open>
  Claim C10. For a text without U+200B, U+200C and U+200D and any data, the output of
  \<open>hideDataInText\<close> is the text with one non-empty block of those three characters
  inserted at one position, and deleting all of them from the output gives the text back.
\<close>

theorem C10_only_invisible_inserted:
  assumes "\<forall>c \<in> set text. c \<notin> {ZWSP, ZWNJ, ZWJ}"
  shows "(\<exists>pos block. pos \<le> length text \<and> block \<noteq> [] \<and> set block \<subseteq> {ZWSP, ZWNJ, ZWJ}
            \<and> hideDataInText text d = take pos text @ block @ drop pos text)
         \<and> stripZeroWidth (hideDataInText text d) = text"
proof
  let ?pos = "min (nat (insertPosition text)) (length text)"
  have shape: "hideDataInText text d = take ?pos text @ zeroWidthFrame d @ drop ?pos text"
    by (simp add: hide_shape zeroWidthFrame_def min_def)
  have "zeroWidthFrame d \<noteq> []" by (simp add: zeroWidthFrame_def preamble_def)
  with shape set_zeroWidthFrame [of d]
  show "\<exists>pos block. pos \<le> length text \<and> block \<noteq> [] \<and> set block \<subseteq> {ZWSP, ZWNJ, ZWJ}
            \<and> hideDataInText text d = take pos text @ block @ drop pos text"
    by (intro exI [of _ ?pos] exI [of _ "zeroWidthFrame d"]) simp
  have "stripZeroWidth (hideDataInText text d)
          = stripZeroWidth (take ?pos text) @ stripZeroWidth (drop ?pos text)"
    by (simp add: shape stripZeroWidth_append stripZeroWidth_block [OF set_zeroWidthFrame])
  also have "\<dots> = stripZeroWidth (take ?pos text @ drop ?pos text)"
    by (simp only: stripZeroWidth_append)
  also have "\<dots> = text"
    using assms by (simp add: stripZeroWidth_plain)
  finally show "stripZeroWidth (hideDataInText text d) = text" .
qed

theorem C10_only_invisible_inserted_witness:
  "list_all (\<lambda>c. c \<notin> {ZWSP, ZWNJ, ZWJ}) scenarioA
   \<and> stripZeroWidth (hideDataInText scenarioA (js ''hi'')) = scenarioA"
proof -
  have h: "\<forall>c \<in> set scenarioA. c \<notin> {ZWSP, ZWNJ, ZWJ}"
    using scenarioA_plain(2) by (auto simp: ZWSP_def ZWNJ_def ZWJ_def)
  show ?thesis
    using C10_only_invisible_inserted [OF h, of "js ''hi''"] h by (simp add: list_all_iff)
qed

section \<open>Properties of the stylometric channel\<close>

lemma shortSentences_match:
  "matchSentences shortSentences = [js ''Go on.'', js '' Stop now.'', js '' Hi there.'']"
  by (simp add: shortSentences_def matchSentences_def isTerminator_def)

text \<open>
  Claim C9. The encoder must fail when the text has fewer eligible sentences than there
  are bits. \<open>encodeStylometricBits\<close> compares the bits with the number of all sentences:
  on three sentences of two words and three bits it raises nothing, embeds no bit and
  returns the sentences, trimmed, followed by all of them again. On two paragraphs
  \<open>hideDataStylometrically\<close> raises nothing either, whatever the data: it returns the
  marker and the first paragraph.
\<close>

theorem C9_no_failure_without_capacity:
  "length (eligibleSentences shortSentences) = 0
   \<and> length (matchSentences shortSentences) = length (js ''101'')
   \<and> encodeStylometricBits rnd k shortSentences (js ''101'')
       = Inr (js ''Go on. Stop now. Hi there. Go on.  Stop now.  Hi there.'', k)
   \<and> hideDataStylometrically rnd k twoParagraphs d
       = Inr (js ''Please note the following information carefully. One two three.''
              @ [10, 10], k)"
proof -
  have "length (eligibleSentences shortSentences) = 0"
    unfolding eligibleSentences_def shortSentences_match
    by (simp add: trim_def isWhiteSpace_def splitSpaceCount_def)
  moreover have "encodeStylometricBits rnd k shortSentences (js ''101'')
       = Inr (js ''Go on. Stop now. Hi there. Go on.  Stop now.  Hi there.'', k)"
    unfolding encodeStylometricBits_def shortSentences_match
    by (simp add: trim_def isWhiteSpace_def splitSpaceCount_def)
  moreover have "hideDataStylometrically rnd k twoParagraphs d
       = Inr (js ''Please note the following information carefully. One two three.''
              @ [10, 10], k)"
    by (simp add: hideDataStylometrically_def twoParagraphs_def Let_def markerText_def trim_def
        isWhiteSpace_def)
  ultimately show ?thesis by (simp add: shortSentences_match)
qed

section \<open>Properties of the structural analysis\<close>

lemmas regex_defs = matchCount_def lits_def isWordChar_def lowerAscii_def startsWord_def

subsection \<open>The bit of a unit\<close>

lemma pastUnit_counts:
  "firstPersonCount pastUnit = 0" "secondPersonCount pastUnit = 0"
  "thirdPersonCount pastUnit = 0" "pastTenseCount pastUnit = 1"
  "presentTenseCount pastUnit = 0" "futureTenseCount pastUnit = 0"
  "metaphorCount pastUnit = 0" "emphasisCount pastUnit = 0"
  by (simp_all add: pastUnit_def firstPersonCount_def secondPersonCount_def
      thirdPersonCount_def pastTenseCount_def presentTenseCount_def futureTenseCount_def
      metaphorCount_def emphasisCount_def regex_defs)

lemma pastUnit_sentences: "matchSentences pastUnit = [pastUnit]"
  by (simp add: pastUnit_def matchSentences_def isTerminator_def)

lemma pastUnit_rhetorical: "rhetoricalOf pastUnit = [Direct]"
  unfolding rhetoricalOf_def pastUnit_sentences Let_def
  by (simp add: pastUnit_counts) (simp add: pastUnit_def trim_def isWhiteSpace_def endsWith_def)

text \<open>Whatever the unit, its bit is decided by the point of view or by the rhetorical
  list, which always holds \<open>Metaphorical\<close> or \<open>Direct\<close>, that is 0 or 1: the tense, the
  dialectic and the complexity are never read.\<close>

lemma unitBit_of_analysis:
  "unitBit (analyzeContentUnit text) =
     (if pov (analyzeContentUnit text) = First then 48
      else if pov (analyzeContentUnit text) = Third then 49
      else if 0 \<in> set (rhetoricalOf text) then 48 else 49)"
  by (auto simp: unitBit_def analyzeContentUnit_def Let_def rhetoricalOf_def EndingQuestion_def
      EndingEmphasis_def Metaphorical_def Direct_def)

text \<open>
  Claim C6. After the point of view and the rhetorical closing the bit must come from the
  tense, past giving 0. For the unit \<open>We walked home.\<close> the point of view is mixed, the
  rhetorical list holds \<open>Direct\<close> alone (no question, no emphasis), the tense is past, and
  the bit is 1: \<open>Direct\<close> and \<open>EndingEmphasis\<close> are the same number, so the test for an
  ending emphasis succeeds.
\<close>

theorem C6_tense_never_read:
  "pov (analyzeContentUnit pastUnit) = MixedPov
   \<and> rhetorical (analyzeContentUnit pastUnit) = [Direct]
   \<and> tense (analyzeContentUnit pastUnit) = Past
   \<and> unitBit (analyzeContentUnit pastUnit) = 49"
  by (simp add: unitBit_def analyzeContentUnit_def Let_def pastUnit_counts pastUnit_rhetorical
      classifyPov_def classifyTense_def Direct_def EndingQuestion_def EndingEmphasis_def)

subsection \<open>The dominance rules\<close>

lemma classifyPov_rule:
  "classifyPov f s t =
     (if doubleDominant f s t then First else if doubleDominant s f t then Second
      else if doubleDominant t f s then Third else MixedPov)"
  by (auto simp: classifyPov_def doubleDominant_def Let_def max_def)

lemma classifyTense_rule:
  "classifyTense f s t =
     (if doubleDominant f s t then Past else if doubleDominant s f t then Present
      else if doubleDominant t f s then Future else MixedTense)"
  by (auto simp: classifyTense_def doubleDominant_def Let_def max_def)

lemma classifyDialectic_rule:
  "classifyDialectic f s t =
     (if majorityDominant f s t then Argumentative
      else if majorityDominant s f t then Descriptive
      else if majorityDominant t f s then Narrative else MixedDialectic)"
  by (auto simp: classifyDialectic_def majorityDominant_def Let_def max_def)

lemma connectiveUnit_counts:
  "argumentativeCount connectiveUnit = 3" "descriptiveCount connectiveUnit = 0"
  "narrativeCount connectiveUnit = 2"
  by (simp_all add: connectiveUnit_def argumentativeCount_def descriptiveCount_def
      narrativeCount_def regex_defs)

text \<open>
  Claim C7 as stated fails on the dialectic axis: with three argumentative and two
  narrative connectives, three is less than the double of two, and the unit is classified
  argumentative, not mixed.
\<close>

theorem C7_dialectic_counterexample:
  "argumentativeCount connectiveUnit = 3 \<and> descriptiveCount connectiveUnit = 0
   \<and> narrativeCount connectiveUnit = 2
   \<and> \<not> doubleDominant 3 0 2
   \<and> dialectic (analyzeContentUnit connectiveUnit) = Argumentative"
  by (simp add: analyzeContentUnit_def Let_def connectiveUnit_counts classifyDialectic_def
      doubleDominant_def)

text \<open>
  Claim C7, as amended. On the axes of the point of view and of the tense the result is
  the class that is dominant by doubling (it has an indicator and at least double the
  combined count of the two others), and mixed when there is none; on the axis of the
  dialectic it is the class that is dominant by majority (more than half of all
  indicators), and mixed when there is none.
\<close>

theorem C7_dominance_rules:
  "pov (analyzeContentUnit text) =
     (if doubleDominant (firstPersonCount text) (secondPersonCount text) (thirdPersonCount text)
      then First
      else if doubleDominant (secondPersonCount text) (firstPersonCount text)
                (thirdPersonCount text)
      then Second
      else if doubleDominant (thirdPersonCount text) (firstPersonCount text)
                (secondPersonCount text)
      then Third else MixedPov)
   \<and> tense (analyzeContentUnit text) =
     (if doubleDominant (pastTenseCount text) (presentTenseCount text) (futureTenseCount text)
      then Past
      else if doubleDominant (presentTenseCount text) (pastTenseCount text)
                (futureTenseCount text)
      then Present
      else if doubleDominant (futureTenseCount text) (pastTenseCount text)
                (presentTenseCount text)
      then Future else MixedTense)
   \<and> dialectic (analyzeContentUnit text) =
     (if majorityDominant (argumentativeCount text) (descriptiveCount text)
           (narrativeCount text)
      then Argumentative
      else if majorityDominant (descriptiveCount text) (argumentativeCount text)
                (narrativeCount text)
      then Descriptive
      else if majorityDominant (narrativeCount text) (argumentativeCount text)
                (descriptiveCount text)
      then Narrative else MixedDialectic)"
  by (simp add: analyzeContentUnit_def Let_def classifyPov_rule classifyTense_rule
      classifyDialectic_rule)

section \<open>Properties of the structural decoder\<close>





















section \<open>Round trips of the stylometric and structural channels\<close>

subsection \<open>The stylometric channel on sixteen sentences\<close>

lemma threeParagraphs_split:
  "splitParagraphs [] threeParagraphs = [js ''Hello.'', middleParagraph, js ''End.'']"
  by (simp add: threeParagraphs_def middleParagraph_def)

lemma empty_payload_bits:
  "lengthBinary [] @ binaryData [] = js ''0000000000000000''"
  by (simp add: lengthBinary_def binaryData_def padStart_def toBinary.simps [of 0] replicate_num)

lemma middle_sentences:
  "matchSentences middleParagraph =
     js ''It is very good.'' # replicate 15 (js '' We go on.'')"
  by (simp add: middleParagraph_def matchSentences_def isTerminator_def replicate_num)

lemma encodeZero_plain:
  "\<not> endsWith s 33 \<Longrightarrow> \<not> endsWith s 63 \<Longrightarrow> encodeZero halfRandom k s = (s, k + 8)"
  by (simp add: encodeZero_def adverbs_def halfRandom_def)

lemma trim_first: "trim (js ''It is very good.'') = js ''It is very good.''"
  by (simp add: trim_def isWhiteSpace_def)

lemma trim_other: "trim (js '' We go on.'') = js ''We go on.''"
  by (simp add: trim_def isWhiteSpace_def)

lemma eligible:
  "\<not> splitSpaceCount (js ''It is very good.'') < 3" "\<not> splitSpaceCount (js ''We go on.'') < 3"
  by (simp_all add: splitSpaceCount_def)

lemma zero_first:
  "encodeZero halfRandom k (js ''It is very good.'') = (js ''It is very good.'', k + 8)"
  by (rule encodeZero_plain) (simp_all add: endsWith_def)

lemma zero_other:
  "encodeZero halfRandom k (js ''We go on.'') = (js ''We go on.'', k + 8)"
  by (rule encodeZero_plain) (simp_all add: endsWith_def)

lemma encode_others:
  "length bits = n \<Longrightarrow> set bits \<subseteq> {48} \<Longrightarrow>
   encodeSentences halfRandom k (replicate n (js '' We go on.'')) bits acc
     = (acc @ concat (replicate n (js ''We go on. '')), [], k + 8 * n)"
proof (induction n arbitrary: bits k acc)
  case 0
  then show ?case by simp
next
  case (Suc n)
  then obtain bs where bits: "bits = 48 # bs" and l: "length bs = n" and z: "set bs \<subseteq> {48}"
    by (cases bits) auto
  show ?case
    unfolding bits replicate_Suc encodeSentences.simps Let_def trim_other
    using Suc.IH [OF l z] by (simp only: eligible if_False if_True zero_other split_conv)
       (simp add: )
qed

lemma middle_encoded:
  "encodeStylometricBits halfRandom 0 middleParagraph (js ''0000000000000000'')
     = Inr (middleParagraph, 128)"
proof -
  have e: "encodeSentences halfRandom 8 (replicate 15 (js '' We go on.''))
             (js ''000000000000000'') (js ''It is very good. '')
           = (js ''It is very good. '' @ concat (replicate 15 (js ''We go on. '')), [], 8 + 8 * 15)"
    by (rule encode_others) simp_all
  have "encodeSentences halfRandom 0 (js ''It is very good.'' # replicate 15 (js '' We go on.''))
          (js ''0000000000000000'') []
        = (js ''It is very good. '' @ concat (replicate 15 (js ''We go on. '')), [], 128)"
    using e [simplified]
    by (simp add: trim_first [simplified] eligible [simplified] zero_first [simplified])
  then show ?thesis
    unfolding encodeStylometricBits_def middle_sentences Let_def
    by (simp add: replicate_num trim_def isWhiteSpace_def middleParagraph_def)
qed

lemma trim_middle: "trim middleParagraph = middleParagraph"
  by (simp add: trim_def isWhiteSpace_def middleParagraph_def)

lemma threeParagraphs_encoded:
  "hideDataStylometrically halfRandom 0 threeParagraphs [] = Inr (threeParagraphsEncoded, 128)"
proof -
  have a: "trim (js ''Hello.'') \<noteq> []" by (simp add: trim_def isWhiteSpace_def)
  have b: "trim middleParagraph \<noteq> []"
    unfolding trim_middle by (simp add: middleParagraph_def)
  show ?thesis
    unfolding hideDataStylometrically_def threeParagraphs_split empty_payload_bits Let_def
    by (simp add: a [simplified] b middle_encoded [simplified])
       (simp add: markerText_def threeParagraphsEncoded_def middleParagraph_def)
qed

lemma middle_eligible: "length (eligibleSentences middleParagraph) = 16"
  unfolding eligibleSentences_def middle_sentences
  by (simp add: replicate_num trim_first [simplified] trim_other [simplified]
      eligible [simplified])

lemma encoded_marker:
  "includesStr threeParagraphsEncoded (js ''Please note the following information carefully.'')"
  by (simp add: threeParagraphsEncoded_def includesStr_def indexOf_def)

lemma encoded_sentences:
  "matchSentences threeParagraphsEncoded =
     [js ''Please note the following information carefully.'', js '' Hello.'',
      [10, 10] @ js ''It is very good.'']
     @ replicate 15 (js '' We go on.'') @ [[10, 10] @ js ''End.'']"
  by (simp add: threeParagraphsEncoded_def matchSentences_def isTerminator_def replicate_num)

lemma bit_first: "isBitOne (js ''It is very good.'')"
  by (simp add: isBitOne_def adverbs_def includesStr_def indexOf_def)

lemma bit_other: "\<not> isBitOne (js ''We go on.'')"
  by (simp add: isBitOne_def adverbs_def includesStr_def indexOf_def endsWith_def)

lemma trim_lead: "trim ([10, 10] @ js ''It is very good.'') = js ''It is very good.''"
  by (simp add: trim_def isWhiteSpace_def)

lemma trim_end: "trim ([10, 10] @ js ''End.'') = js ''End.''"
  by (simp add: trim_def isWhiteSpace_def)

lemma short_end: "splitSpaceCount (js ''End.'') < 3"
  by (simp add: splitSpaceCount_def)

lemma encoded_bits:
  "extractSentences (drop 2 (matchSentences threeParagraphsEncoded)) []
     = js ''1000000000000000''"
  unfolding encoded_sentences
  by (simp add: replicate_num trim_lead [simplified] trim_other [simplified]
      trim_end [simplified] eligible [simplified] short_end [simplified]
      bit_first [simplified] bit_other [simplified] parseInt2_def binValue_def)

lemma encoded_decodes_to_null: "extractHiddenStylometricData threeParagraphsEncoded = None"
  unfolding extractHiddenStylometricData_def extractStylometricBits_def Let_def encoded_bits
  using encoded_marker
  by (simp add: decodeLengthPrefixed_def substring_def parseInt2_def binValue_def)

subsection \<open>The structural decoder returns at most six characters\<close>

lemma length_extractPatternBits_16:
  "length (extractPatternBits us bits) \<le> max (length bits) 16"
proof (induction us bits rule: extractPatternBits.induct)
  case (1 us bits)
  show ?case
  proof (cases "us = [] \<or> \<not> length bits < 16")
    case True
    then show ?thesis by (subst extractPatternBits.simps) simp
  next
    case False
    let ?bits' = "if length (take 4 us) \<ge> 3
               then bits @ [if shortLongPattern True (map length (take 4 us)) then 48 else 49]
               else bits"
    have "length (extractPatternBits (drop 4 us) ?bits') \<le> max (length ?bits') 16"
      using 1 [OF False refl] by simp
    moreover have "length ?bits' \<le> 16" using False by simp
    ultimately have "length (extractPatternBits (drop 4 us) ?bits') \<le> max (length bits) 16"
      by simp
    then show ?thesis using False by (subst extractPatternBits.simps) (simp add: Let_def)
  qed
qed

lemma length_extractUnitBits_64:
  "length (extractUnitBits us bits) \<le> max (length bits) 64"
proof (induction us arbitrary: bits)
  case Nil
  show ?case by simp
next
  case (Cons u us)
  show ?case using Cons [of "bits @ [unitBit (analyzeContentUnit u)]"] by auto
qed

lemma length_fullBytesToChars: "length (fullBytesToChars bits) \<le> length bits div 8"
proof (induction bits rule: fullBytesToChars.induct)
  case (1 bits)
  show ?case
  proof (cases "bits = []")
    case True
    then show ?thesis by (simp add: fullBytesToChars.simps [of "[]"])
  next
    case False
    show ?thesis
    proof (cases "length bits < 8")
      case True
      with False 1 show ?thesis by (subst fullBytesToChars.simps) simp
    next
      case long: False
      then have "length (drop 8 bits) div 8 + 1 = length bits div 8"
        by (simp add: le_div_geq)
      with False 1 long show ?thesis by (subst fullBytesToChars.simps) simp
    qed
  qed
qed

lemma length_decodeLengthPrefixed:
  assumes "decodeLengthPrefixed bits = Some r" and "length bits \<le> 64"
  shows "length r \<le> 6"
proof -
  obtain e where r: "r = fullBytesToChars (substring bits 16 e)"
    using assms(1) by (auto simp: decodeLengthPrefixed_def Let_def split: if_splits)
  have "length (substring bits 16 e) \<le> 48"
    using assms(2) by (auto simp: substring_def Let_def min_def max_def)
  with length_fullBytesToChars [of "substring bits 16 e"] show ?thesis
    unfolding r by linarith
qed

lemma structural_payload_short:
  assumes "extractHiddenStructuralData text = Inr r"
  shows "length r \<le> 6"
proof -
  let ?us = "splitContentIntoUnits text"
  let ?bits = "extractUnitBits ?us (extractPatternBits ?us [])"
  from assms have d: "decodeLengthPrefixed ?bits = Some r"
    by (auto simp: extractHiddenStructuralData_def Let_def split: if_splits option.splits)
  have "length (extractPatternBits ?us []) \<le> 16"
    using length_extractPatternBits_16 [of ?us "[]"] by simp
  then have "length ?bits \<le> 64"
    using length_extractUnitBits_64 [of ?us "extractPatternBits ?us []"] by simp
  with d show ?thesis by (rule length_decodeLengthPrefixed)
qed

lemma structural_round_trip_fails:
  "\<not> isl (hideDataStructurally halfRandom 0 scenarioB (js ''123456789'') DEFAULT_OPTIONS)
   \<and> extractHiddenStructuralData
        (fst (projr (hideDataStructurally halfRandom 0 scenarioB (js ''123456789'')
                       DEFAULT_OPTIONS)))
       \<noteq> Inr (js ''123456789'')"
proof -
  have "\<not> isl (hideDataStructurally halfRandom 0 scenarioB (js ''123456789'') DEFAULT_OPTIONS)"
    by (rule hideDataStructurally_accepts) (simp add: DEFAULT_OPTIONS_def length_scenarioB)
  moreover have "extractHiddenStructuralData t \<noteq> Inr (js ''123456789'')" for t
    using structural_payload_short [of t "js ''123456789''"] by auto
  ultimately show ?thesis by simp
qed

subsection \<open>Round trips that fail\<close>

text \<open>
  Claim C1 as stated fails, on each of the three channels.
  On the zero-width channel a payload of 8192 bytes has 65536 bits, the length field takes
  17 symbols, and the decoder, which reads 16, returns 4096 characters; and a text of 200
  characters that begins with three U+200D has its own characters taken for the frame.
  On the stylometric channel the empty payload has 16 bits, all zero; a paragraph of
  sixteen eligible sentences takes them and comes back unchanged, since a zero leaves a
  sentence that ends with a full stop as it is; the decoder reads a one from the first
  sentence, which holds the adverb \<^emph>\<open>very\<close>, takes 32768 for the length and returns
  \<open>null\<close>.
  On the structural channel a payload of nine bytes is accepted on a text of 1210
  characters, above the minimum of 1000, and no text decodes to it: the decoder reads at
  most 64 bits, hence at most six characters.
\<close>

theorem C1_round_trip_counterexample:
  "extractHiddenData (hideDataInText (replicate 200 97) (replicate 8192 104))
     \<noteq> Some (replicate 8192 104)
   \<and> extractHiddenData (hideDataInText (replicate 3 ZWJ @ replicate 197 97) (js ''hi''))
     \<noteq> Some (js ''hi'')
   \<and> length (eligibleSentences middleParagraph) = length (lengthBinary [] @ binaryData [])
   \<and> hideDataStylometrically halfRandom 0 threeParagraphs []
     = Inr (threeParagraphsEncoded, 128)
   \<and> extractHiddenStylometricData threeParagraphsEncoded \<noteq> Some []
   \<and> minContentLength DEFAULT_OPTIONS \<le> length scenarioB
   \<and> \<not> isl (hideDataStructurally halfRandom 0 scenarioB (js ''123456789'') DEFAULT_OPTIONS)
   \<and> extractHiddenStructuralData
        (fst (projr (hideDataStructurally halfRandom 0 scenarioB (js ''123456789'')
                       DEFAULT_OPTIONS)))
     \<noteq> Inr (js ''123456789'')"
  using oversize_round_trip_fails zwj_text_round_trip_fails middle_eligible
    threeParagraphs_encoded encoded_decodes_to_null structural_round_trip_fails
  by (simp add: empty_payload_bits [simplified] DEFAULT_OPTIONS_def length_scenarioB)

section \<open>Properties of the multilayer encoder and decoder\<close>

subsection \<open>The encoding of a document of 340 characters\<close>

lemmas toBinary_eval = toBinary.simps [of "numeral n"] toBinary.simps [of 0]
  toBinary.simps [of 1] toBinary.simps [of "Suc 0"] for n

lemma binaryData_braces: "binaryData (js ''{}'') = js ''0111101101111101''"
  by (simp add: binaryData_def isHighSurrogate_def) (simp add: padStart_def toBinary_eval)

lemma lengthBinary_braces: "lengthBinary (js ''{}'') = js ''0000000000010000''"
proof -
  have "length (binaryData (js ''{}'')) = 16" by (simp add: length_binaryData_bytes)
  then show ?thesis
    unfolding lengthBinary_def by (simp add: padStart_def toBinary_eval replicate_num)
qed

lemma bits_braces:
  "lengthBinary (js ''{}'') @ binaryData (js ''{}'') = js ''00000000000100000111101101111101''"
  unfolding lengthBinary_braces binaryData_braces by simp

lemma frame_braces:
  "zeroWidthFrame (js ''{}'') =
     [8205, 8205, 8205,
      8203, 8203, 8203, 8203, 8203, 8203, 8203, 8203, 8203, 8203, 8203, 8204, 8203, 8203, 8203, 8203,
      8203, 8204, 8204, 8204, 8204, 8203, 8204, 8204, 8203, 8204, 8204, 8204, 8204, 8204, 8203, 8204,
      8205, 8205, 8205]"
  unfolding zeroWidthFrame_def lengthBinary_braces binaryData_braces
  by (simp add: preamble_def epilogue_def encodeSymbols_def ZWJ_def ZWSP_def ZWNJ_def replicate_num)

lemma count_concat_replicate:
  "count_list (concat (replicate n s)) c = n * count_list s c"
  by (induction n) simp_all

lemma pos_original: "insertPosition original = 17"
  by (simp add: original_def insertPosition_def splitSpaceCount_def count_concat_replicate)

lemma step1: "hideDataInText original (js ''{}'') = layer1"
  unfolding hide_shape pos_original
  by (simp add: zeroWidthFrame_def layer1_def original_def framedSentence_def)

lemma one_other:
  "encodeOne halfRandom k (js ''We go on.'') = (js ''We go on?'', k + 2)"
  by (simp add: encodeOne_def halfRandom_def endsWith_def slice_def relIndex_def Let_def)

lemma encode_bits:
  "encodeSentences halfRandom k (replicate (length bits) (js '' We go on.'')) bits acc
     = (acc @ concat (map encodedSentence bits), [], k + sum_list (map calls bits))"
proof (induction bits arbitrary: k acc)
  case Nil
  then show ?case by simp
next
  case (Cons b bits)
  show ?case
  proof (cases "b = 48")
    case True
    show ?thesis
      unfolding length_Cons replicate_Suc encodeSentences.simps Let_def trim_other
      using Cons [of "k + 8" "acc @ js ''We go on. ''"] True
      by (simp only: eligible(2) if_False if_True zero_other split_conv)
         (simp add: encodedSentence_def calls_def)
  next
    case False
    show ?thesis
      unfolding length_Cons replicate_Suc encodeSentences.simps Let_def trim_other
      using Cons [of "k + 2" "acc @ js ''We go on? ''"] False
      by (simp only: eligible(2) if_False if_True one_other split_conv)
         (simp add: encodedSentence_def calls_def)
  qed
qed

lemma trim_framed: "trim framedSentence = framedSentence"
  unfolding framedSentence_def frame_braces by (simp add: trim_def isWhiteSpace_def)

lemma eligible_framed: "\<not> splitSpaceCount framedSentence < 3"
  unfolding framedSentence_def frame_braces by (simp add: splitSpaceCount_def)

lemma zero_framed: "encodeZero halfRandom k framedSentence = (framedSentence, k + 8)"
  unfolding framedSentence_def frame_braces
  by (simp add: encodeZero_def adverbs_def halfRandom_def endsWith_def)

lemma middleLayer_sentences:
  "matchSentences middleLayer = framedSentence # replicate 31 (js '' We go on.'')"
  unfolding middleLayer_def framedSentence_def frame_braces
  by (simp add: matchSentences_def isTerminator_def replicate_num)

lemma layer1_split:
  "splitParagraphs [] layer1 = [js ''Hello.'', middleLayer, js ''End.'']"
  unfolding layer1_def middleLayer_def framedSentence_def frame_braces
  by (simp add: replicate_num)

lemma encode_first:
  "encodeSentences halfRandom 0 (framedSentence # ss) (48 # bits) []
     = encodeSentences halfRandom 8 ss bits (framedSentence @ [32])"
  by (simp add: trim_framed eligible_framed zero_framed)

lemma encode_rest:
  "length bits = n \<Longrightarrow>
   encodeSentences halfRandom k (replicate n (js '' We go on.'')) bits acc
     = (acc @ concat (map encodedSentence bits), [], k + sum_list (map calls bits))"
  using encode_bits [of k bits acc] by simp

lemma middleLayer_encoded:
  "encodeStylometricBits halfRandom 0 middleLayer (js ''00000000000100000111101101111101'')
     = Inr (framedSentence @ [32] @ encodedTail, 178)"
proof -
  let ?rest = "js ''0000000000100000111101101111101''"
  have "encodeSentences halfRandom 0 (framedSentence # replicate 31 (js '' We go on.''))
          (48 # ?rest) []
        = encodeSentences halfRandom 8 (replicate 31 (js '' We go on.'')) ?rest
            (framedSentence @ [32])"
    by (rule encode_first)
  also have "\<dots> = ((framedSentence @ [32]) @ concat (map encodedSentence ?rest), [],
                    8 + sum_list (map calls ?rest))"
    by (rule encode_rest) simp
  also have "\<dots> = (framedSentence @ [32] @ encodedTail @ [32], [], 178)"
    by (simp add: encodedSentence_def calls_def encodedTail_def)
  finally have e: "encodeSentences halfRandom 0
          (framedSentence # replicate 31 (js '' We go on.''))
          (js ''00000000000100000111101101111101'') []
        = (framedSentence @ [32] @ encodedTail @ [32], [], 178)"
    by simp
  have t: "trim (framedSentence @ [32] @ encodedTail @ [32])
        = framedSentence @ [32] @ encodedTail"
    unfolding framedSentence_def frame_braces encodedTail_def
    by (simp add: trim_def isWhiteSpace_def)
  show ?thesis
    unfolding encodeStylometricBits_def middleLayer_sentences Let_def e
    by (simp add: t [simplified])
qed

lemma trim_middleLayer: "trim middleLayer \<noteq> []"
  unfolding middleLayer_def framedSentence_def frame_braces
  by (simp add: trim_def isWhiteSpace_def)

lemma layer1_encoded:
  "hideDataStylometrically halfRandom 0 layer1 (js ''{}'') = Inr (encodedDocument, 178)"
proof -
  have a: "trim (js ''Hello.'') \<noteq> []" by (simp add: trim_def isWhiteSpace_def)
  show ?thesis
    unfolding hideDataStylometrically_def layer1_split bits_braces Let_def
    by (simp add: a [simplified] trim_middleLayer middleLayer_encoded [simplified])
       (simp add: markerText_def encodedDocument_def)
qed

lemma length_encodedDocument: "length encodedDocument = 427"
  unfolding encodedDocument_def framedSentence_def frame_braces encodedTail_def by simp

lemma document_encoded:
  "encodeEnhancedContent signAll halfRandom 0 original (JObj []) (js ''alice'') allLayers
     = Some \<lparr> packageContent = encodedDocument, packageSignature = js ''signed'',
              layers = [js ''zero-width'', js ''stylometric''],
              originalLength = 340, finalLength = 427 \<rparr>"
proof -
  have l: "length original = 340" by (simp add: original_def length_concat replicate_num)
  show ?thesis
    unfolding encodeEnhancedContent_def
    by (simp add: allLayers_def step1 [simplified] layer1_encoded [simplified]
        length_encodedDocument signAll_def l)
qed

subsection \<open>The three decoders on the document, with and without its zero-width characters\<close>

lemma extract_frame_payload:
  assumes "ZWJ \<notin> set pre" and "\<forall>c \<in> set p. c < 256" and "length p < 8192"
  shows "extractHiddenData (pre @ zeroWidthFrame p @ post) = Some p"
proof -
  let ?content = "encodeSymbols (lengthBinary p) @ encodeSymbols (binaryData p)"
  have small: "length (binaryData p) < 65536"
    using assms(2,3) by (simp add: length_binaryData_bytes)
  have nz: "ZWJ \<notin> set ?content"
    using ZWJ_notin_encode by simp
  have "extractHiddenData (pre @ zeroWidthFrame p @ post) = Some (decodeContent ?content)"
    using extract_framed [OF assms(1) nz, of post] by (simp add: zeroWidthFrame_def)
  also have "decodeContent ?content = bitsToChars (binaryData p)"
    by (rule decodeContent_frame [OF small])
  also have "\<dots> = p"
    using assms(2) by (simp add: binaryData_def charCodes_bytes bitsToChars_bytes)
  finally show ?thesis .
qed

lemma encoded_zero_width: "extractHiddenData encodedDocument = Some (js ''{}'')"
proof -
  have "extractHiddenData
          ((js ''Please note the following information carefully. Hello.'' @ [10, 10]
              @ js ''It is ver'')
           @ zeroWidthFrame (js ''{}'')
           @ (js ''y good.'' @ [32] @ encodedTail @ [10, 10] @ js ''End.''))
        = Some (js ''{}'')"
    by (rule extract_frame_payload) (simp_all add: ZWJ_def)
  then show ?thesis by (simp add: encodedDocument_def framedSentence_def)
qed

lemma encoded_stripped: "stripZeroWidth encodedDocument = strippedDocument"
proof -
  let ?A = "js ''Please note the following information carefully. Hello.''
             @ [10, 10] @ js ''It is ver''"
  let ?B = "js ''y good.'' @ [32] @ encodedTail @ [10, 10] @ js ''End.''"
  have z: "stripZeroWidth (zeroWidthFrame (js ''{}'')) = []"
    by (rule stripZeroWidth_block [OF set_zeroWidthFrame])
  have p: "stripZeroWidth ?A = ?A"
    by (simp add: stripZeroWidth_def)
  have q: "stripZeroWidth ?B = ?B"
    by (simp add: stripZeroWidth_def encodedTail_def)
  have e: "encodedDocument = ?A @ zeroWidthFrame (js ''{}'') @ ?B"
    by (simp add: encodedDocument_def framedSentence_def)
  have "stripZeroWidth (?A @ zeroWidthFrame (js ''{}'') @ ?B)
          = stripZeroWidth ?A @ stripZeroWidth (zeroWidthFrame (js ''{}'')) @ stripZeroWidth ?B"
    by (simp only: stripZeroWidth_append)
  also have "\<dots> = ?A @ ?B"
    unfolding z p q by simp
  finally show ?thesis
    unfolding e by (simp add: strippedDocument_def)
qed

lemma stripped_zero_width: "extractHiddenData strippedDocument = None"
  unfolding strippedDocument_def encodedTail_def extractHiddenData_def
  by (simp add: indexOf_def preamble_def ZWJ_def replicate_num)

lemma no_structural_marker:
  "extractHiddenStructuralData encodedDocument = Inl MarkerNotFound"
  "extractHiddenStructuralData strippedDocument = Inl MarkerNotFound"
  unfolding extractHiddenStructuralData_def encodedDocument_def strippedDocument_def
    framedSentence_def frame_braces encodedTail_def
  by (simp_all add: includesStr_def indexOf_def)

lemma document_marker:
  "includesStr encodedDocument (js ''Please note the following information carefully.'')"
  "includesStr strippedDocument (js ''Please note the following information carefully.'')"
  by (simp_all add: encodedDocument_def strippedDocument_def includesStr_def indexOf_def)

lemma document_sentences:
  "matchSentences encodedDocument =
     [js ''Please note the following information carefully.'', js '' Hello.'',
      [10, 10] @ framedSentence]
     @ encodedSentences @ [[10, 10] @ js ''End.'']"
  unfolding encodedDocument_def framedSentence_def frame_braces encodedTail_def
    encodedSentences_def
  by (simp add: matchSentences_def isTerminator_def)

lemma stripped_sentences:
  "matchSentences strippedDocument =
     [js ''Please note the following information carefully.'', js '' Hello.'',
      [10, 10] @ js ''It is very good.'']
     @ encodedSentences @ [[10, 10] @ js ''End.'']"
  unfolding strippedDocument_def encodedTail_def encodedSentences_def
  by (simp add: matchSentences_def isTerminator_def)

lemma bit_framed: "\<not> isBitOne framedSentence"
  unfolding framedSentence_def frame_braces
  by (simp add: isBitOne_def adverbs_def includesStr_def indexOf_def endsWith_def)

lemma bit_plain: "isBitOne (js ''It is very good.'')"
  by (simp add: isBitOne_def adverbs_def includesStr_def indexOf_def)

lemma bit_zero: "\<not> isBitOne (js ''We go on.'')"
  by (simp add: isBitOne_def adverbs_def includesStr_def indexOf_def endsWith_def)

lemma bit_one: "isBitOne (js ''We go on?'')"
  by (simp add: isBitOne_def endsWith_def)

lemma trims:
  "trim ([10, 10] @ framedSentence) = framedSentence"
  "trim ([10, 10] @ js ''It is very good.'') = js ''It is very good.''"
  "trim (js '' We go on.'') = js ''We go on.''"
  "trim (js '' We go on?'') = js ''We go on?''"
  "trim ([10, 10] @ js ''End.'') = js ''End.''"
  unfolding framedSentence_def frame_braces
  by (simp_all add: trim_def isWhiteSpace_def)

lemma words:
  "\<not> splitSpaceCount framedSentence < 3"
  "\<not> splitSpaceCount (js ''It is very good.'') < 3"
  "\<not> splitSpaceCount (js ''We go on.'') < 3"
  "\<not> splitSpaceCount (js ''We go on?'') < 3"
  "splitSpaceCount (js ''End.'') < 3"
  unfolding framedSentence_def frame_braces
  by (simp_all add: splitSpaceCount_def)

lemma document_bits:
  "extractSentences (drop 2 (matchSentences encodedDocument)) []
     = js ''00000000000100000111101101111101''"
  unfolding document_sentences encodedSentences_def
  by (simp add: trims [simplified] words [simplified] bit_framed bit_zero [simplified]
      bit_one [simplified] parseInt2_def binValue_def)

lemma stripped_bits:
  "extractSentences (drop 2 (matchSentences strippedDocument)) []
     = js ''10000000000100000111101101111101''"
  unfolding stripped_sentences encodedSentences_def
  by (simp add: trims [simplified] words [simplified] bit_plain [simplified]
      bit_zero [simplified] bit_one [simplified] parseInt2_def binValue_def)

lemma encoded_stylometric: "extractHiddenStylometricData encodedDocument = Some (js ''{}'')"
  unfolding extractHiddenStylometricData_def extractStylometricBits_def Let_def document_bits
  using document_marker(1)
  by (simp add: decodeLengthPrefixed_def substring_def parseInt2_def binValue_def
      fullBytesToChars.simps fromCharCode_def)

lemma stripped_stylometric: "extractHiddenStylometricData strippedDocument = None"
  unfolding extractHiddenStylometricData_def extractStylometricBits_def Let_def stripped_bits
  using document_marker(2)
  by (simp add: decodeLengthPrefixed_def substring_def parseInt2_def binValue_def)

subsection \<open>A document whose layers disagree\<close>













subsection \<open>The decoder of the package\<close>


lemma encoded_results:
  "extractionResults parseSample encodedDocument
     = [(js ''stylometric'', JObj []), (js ''zero-width'', JObj [])]"
  unfolding extractionResults_def no_structural_marker encoded_stylometric encoded_zero_width
  by (simp add: nullable_def tryExtraction_def parseSample_def)

lemma stripped_results: "extractionResults parseSample strippedDocument = []"
  unfolding extractionResults_def no_structural_marker stripped_stylometric stripped_zero_width
  by (simp add: nullable_def tryExtraction_def)


lemma encoded_decoded:
  "decodeEnhancedContent verifyAll parseSample encodedDocument (js ''signed'')
     = Some \<lparr> metadata = Some (JObj []), signerName = Some (js ''alice''),
              extractionSource = js ''stylometric'', integrity = True \<rparr>"
  unfolding decodeEnhancedContent_def encoded_results by (simp add: verifyAll_def)

lemma stripped_decoded:
  "decodeEnhancedContent verifyAll parseSample strippedDocument (js ''signed'')
     = Some \<lparr> metadata = None, signerName = Some (js ''alice''),
              extractionSource = js ''none'', integrity = False \<rparr>"
  unfolding decodeEnhancedContent_def stripped_results by (simp add: verifyAll_def)


subsection \<open>The integrity of the decoded result\<close>




subsection \<open>Deleting the zero-width characters\<close>

text \<open>
  Claim C5. Deleting the zero-width characters of an encoded document must leave the
  stylometric and structural extractions unchanged. The encoder writes the zero-width
  frame first, inside a word when the insertion offset falls there, and the stylometric
  decoder reads a one from a sentence that holds an adverb between spaces. The document
  \<open>original\<close>, encoded in redundant mode with all layers for the metadata \<^verbatim>\<open>{}\<close>, has
  the frame inside the adverb \<^emph>\<open>very\<close>: the stylometric decoder returns \<^verbatim>\<open>{}\<close> on the
  encoded document and \<open>null\<close> once the zero-width characters are deleted, since the
  first sentence then reads as a one and the length as 32784 bits. The decoder of the
  package returns the metadata with integrity \<open>true\<close> before, and no metadata after.
  (The document is shorter than 800 characters, for which the encoder leaves the
  structural layer out.)
\<close>

theorem C5_stripping_changes_extraction:
  "encodeEnhancedContent signAll halfRandom 0 original (JObj []) (js ''alice'') allLayers
     = Some \<lparr> packageContent = encodedDocument, packageSignature = js ''signed'',
              layers = [js ''zero-width'', js ''stylometric''],
              originalLength = 340, finalLength = 427 \<rparr>
   \<and> stringify (JObj []) = js ''{}''
   \<and> extractHiddenStylometricData encodedDocument = Some (js ''{}'')
   \<and> stripZeroWidth encodedDocument = strippedDocument
   \<and> extractHiddenStylometricData (stripZeroWidth encodedDocument) = None
   \<and> decodeEnhancedContent verifyAll parseSample encodedDocument (js ''signed'')
       = Some \<lparr> metadata = Some (JObj []), signerName = Some (js ''alice''),
                extractionSource = js ''stylometric'', integrity = True \<rparr>
   \<and> decodeEnhancedContent verifyAll parseSample (stripZeroWidth encodedDocument) (js ''signed'')
       = Some \<lparr> metadata = None, signerName = Some (js ''alice''),
                extractionSource = js ''none'', integrity = False \<rparr>"
  using document_encoded encoded_stylometric encoded_stripped stripped_stylometric
    encoded_decoded stripped_decoded
  by simp

end
